theory Spec2Isabelle
  imports Main "HOL-Library.Word"
begin

section \<open>Result codes, faults and assertions\<close>

text \<open>
  Modelled from the spec: the result codes, declared in errors.h, which is not under src/.
  The functions of masterIndex006.c return an \<^verbatim>\<open>int\<close>; "errors are returned, never
  thrown". The codes the file names are constructors, as are the code of a failed buffer
  operation, the two codes of a reader that runs out of bytes, and \<open>ENOMEM\<close> for a failed
  allocation; \<open>UDS_OTHER\<close> stands for any other code a collaborator returns.
\<close>

datatype uds_result =
    UDS_SUCCESS
  | UDS_INVALID_ARGUMENT
  | UDS_BAD_STATE
  | UDS_CORRUPT_COMPONENT
  | UDS_ASSERTION_FAILED
  | UDS_BUFFER_ERROR
  | UDS_END_OF_FILE
  | UDS_SHORT_READ
  | ENOMEM
  | UDS_OTHER int

text \<open>
  What C leaves undefined, or what never returns, is a fault of the model: a division by
  zero, an array index out of range, a read through a pointer to nothing, locking a mutex
  that is already held (the call blocks forever in a single thread), unlocking a mutex that
  is not held.
\<close>

datatype fault = DivideByZero | OutOfBounds | InvalidPointer | Deadlock | UnlockNotHeld

definition bindF :: "fault + 'a \<Rightarrow> ('a \<Rightarrow> fault + 'b) \<Rightarrow> fault + 'b" where
  "bindF x f = (case x of Inl e \<Rightarrow> Inl e | Inr v \<Rightarrow> f v)"

text \<open>
  Modelled from the spec: the assertion macros of permassert.h, which is not under src/.
  "Programming/state errors [...] reported via assertion-backed error returns": a failed
  \<^verbatim>\<open>ASSERT_WITH_ERROR_CODE(expr, code, ...)\<close> logs and returns \<open>code\<close>, a failed
  \<^verbatim>\<open>ASSERT_LOG_ONLY(expr, ...)\<close> logs and returns the assertion-failure code; both
  return success when the expression holds.
\<close>

definition ASSERT_WITH_ERROR_CODE :: "bool \<Rightarrow> uds_result \<Rightarrow> uds_result" where
  "ASSERT_WITH_ERROR_CODE expr code = (if expr then UDS_SUCCESS else code)"

definition ASSERT_LOG_ONLY :: "bool \<Rightarrow> uds_result" where
  "ASSERT_LOG_ONLY expr = (if expr then UDS_SUCCESS else UDS_ASSERTION_FAILED)"

text \<open>
  Modelled from the spec: the logging functions of logger.h, which is not under src/. They
  return the code they are given; the text they log is not part of the model.
\<close>

definition logWarningWithStringError :: "uds_result \<Rightarrow> uds_result" where
  "logWarningWithStringError result = result"

definition logErrorWithStringError :: "uds_result \<Rightarrow> uds_result" where
  "logErrorWithStringError result = result"


section \<open>Configurations and geometries in memory\<close>

text \<open>
  Modelled from the spec: \<^verbatim>\<open>struct configuration\<close> and \<^verbatim>\<open>struct geometry\<close>, declared in
  headers that are not under src/: "a global configuration (geometry: chapters-per-volume,
  sparse-chapters-per-volume, records-per-chapter; plus sparse-sample-rate)".
  \<^verbatim>\<open>struct configuration\<close> holds a pointer to its \<^verbatim>\<open>struct geometry\<close>, and
  \<^verbatim>\<open>struct split_config\<close> holds two configurations and the two geometries they point to.
  Objects are therefore kept in a memory, addressed by references: \<open>Caller n\<close> is an object
  the caller owns, the four \<open>Split_\<close> references are the four members of the
  \<^verbatim>\<open>struct split_config split\<close> that is a local variable of
  \<^verbatim>\<open>computeMasterIndexSaveBytes006\<close> and \<^verbatim>\<open>makeMasterIndex006\<close>.

  The members are \<^verbatim>\<open>unsigned int\<close> (the source prints the sample rate with \<^verbatim>\<open>%u\<close>):
  32-bit words. Only the members masterIndex006.c reads or writes are kept.
\<close>

datatype ref =
    Caller nat
  | Split_hookConfig
  | Split_hookGeometry
  | Split_nonHookConfig
  | Split_nonHookGeometry

record geometry =
  chapters_per_volume :: "32 word"
  sparse_chapters_per_volume :: "32 word"
  records_per_chapter :: "32 word"

record configuration =
  geometry :: ref
  sparse_sample_rate :: "32 word"

record memory =
  configurations :: "ref \<Rightarrow> configuration option"
  geometries :: "ref \<Rightarrow> geometry option"

definition load_configuration :: "memory \<Rightarrow> ref \<Rightarrow> fault + configuration" where
  "load_configuration m p =
     (case configurations m p of None \<Rightarrow> Inl InvalidPointer | Some c \<Rightarrow> Inr c)"

definition load_geometry :: "memory \<Rightarrow> ref \<Rightarrow> fault + geometry" where
  "load_geometry m p =
     (case geometries m p of None \<Rightarrow> Inl InvalidPointer | Some g \<Rightarrow> Inr g)"

definition store_configuration :: "memory \<Rightarrow> ref \<Rightarrow> configuration \<Rightarrow> memory" where
  "store_configuration m p c = m\<lparr>configurations := (configurations m)(p \<mapsto> c)\<rparr>"

definition store_geometry :: "memory \<Rightarrow> ref \<Rightarrow> geometry \<Rightarrow> memory" where
  "store_geometry m p g = m\<lparr>geometries := (geometries m)(p \<mapsto> g)\<rparr>"


section \<open>splitConfiguration006\<close>

text \<open>
  \<^verbatim>\<open>split->hookConfig = *config; split->hookGeometry = *config->geometry;
  split->hookConfig.geometry = &split->hookGeometry;\<close> and the same three statements for
  the non-hook half. Every statement reads memory as the statement before left it.
\<close>

definition copy_base :: "memory \<Rightarrow> ref \<Rightarrow> ref \<Rightarrow> ref \<Rightarrow> fault + memory" where
  "copy_base m config splitConfig splitGeometry =
     bindF (load_configuration m config) (\<lambda>c.
     let m1 = store_configuration m splitConfig c in
     bindF (load_configuration m1 config) (\<lambda>c1.
     bindF (load_geometry m1 (geometry c1)) (\<lambda>g1.
     let m2 = store_geometry m1 splitGeometry g1 in
     bindF (load_configuration m2 splitConfig) (\<lambda>sc.
     Inr (store_configuration m2 splitConfig (sc\<lparr>geometry := splitGeometry\<rparr>))))))"

text \<open>
  The adjustments, lines 710 to 723. The four locals are \<^verbatim>\<open>uint64_t\<close>; the members they
  are read from and assigned to are 32 bits wide, so each read widens and each assignment
  truncates. \<^verbatim>\<open>a -= b\<close> with a 64-bit \<open>b\<close> subtracts in 64 bits.
\<close>

definition adjust_split :: "memory \<Rightarrow> ref \<Rightarrow> fault + memory" where
  "adjust_split m config =
     bindF (load_configuration m config) (\<lambda>c.
     bindF (load_geometry m (geometry c)) (\<lambda>g.
     let sampleRate = (ucast (sparse_sample_rate c) :: 64 word);
         numChapters = (ucast (chapters_per_volume g) :: 64 word);
         numSparseChapters = (ucast (sparse_chapters_per_volume g) :: 64 word);
         numDenseChapters = numChapters - numSparseChapters
     in if sampleRate = 0 then Inl DivideByZero else
     let sampleRecords = (ucast (records_per_chapter g) :: 64 word) div sampleRate in
     bindF (load_geometry m Split_hookGeometry) (\<lambda>hg.
     let m1 = store_geometry m Split_hookGeometry
                (hg\<lparr>records_per_chapter := ucast sampleRecords\<rparr>) in
     bindF (load_geometry m1 Split_nonHookGeometry) (\<lambda>ng.
     let m2 = store_geometry m1 Split_nonHookGeometry
                (ng\<lparr>records_per_chapter :=
                      ucast ((ucast (records_per_chapter ng) :: 64 word) - sampleRecords)\<rparr>) in
     bindF (load_geometry m2 Split_hookGeometry) (\<lambda>hg2.
     let m3 = store_geometry m2 Split_hookGeometry (hg2\<lparr>sparse_chapters_per_volume := 0\<rparr>) in
     bindF (load_geometry m3 Split_nonHookGeometry) (\<lambda>ng2.
     let m4 = store_geometry m3 Split_nonHookGeometry (ng2\<lparr>sparse_chapters_per_volume := 0\<rparr>) in
     bindF (load_geometry m4 Split_nonHookGeometry) (\<lambda>ng3.
     Inr (store_geometry m4 Split_nonHookGeometry
            (ng3\<lparr>chapters_per_volume := ucast numDenseChapters\<rparr>)))))))))"

definition splitConfiguration006 :: "memory \<Rightarrow> ref \<Rightarrow> fault + (uds_result \<times> memory)" where
  "splitConfiguration006 m config =
     bindF (load_configuration m config) (\<lambda>c.
     bindF (load_geometry m (geometry c)) (\<lambda>g.
     let result = ASSERT_WITH_ERROR_CODE (sparse_chapters_per_volume g \<noteq> 0)
                    UDS_INVALID_ARGUMENT in
     if result \<noteq> UDS_SUCCESS then Inr (result, m) else
     let result = ASSERT_WITH_ERROR_CODE (sparse_sample_rate c \<noteq> 0) UDS_INVALID_ARGUMENT in
     if result \<noteq> UDS_SUCCESS then Inr (result, m) else
     bindF (copy_base m config Split_hookConfig Split_hookGeometry) (\<lambda>m1.
     bindF (copy_base m1 config Split_nonHookConfig Split_nonHookGeometry) (\<lambda>m2.
     bindF (adjust_split m2 config) (\<lambda>m3.
     Inr (UDS_SUCCESS, m3))))))"


section \<open>Chunk names, records, mutexes and sub-indices\<close>

type_synonym byte = "8 word"

text \<open>A chunk name is an opaque sequence of bytes.\<close>

type_synonym uds_chunk_name = "byte list"

datatype Mutex = Unlocked | Locked

text \<open>\<^verbatim>\<open>struct master_index_zone\<close>: the mutex that protects the sampled index in the zone.\<close>

record master_index_zone =
  hookMutex :: Mutex

text \<open>
  Modelled from the spec: \<^verbatim>\<open>struct master_index_record\<close> and
  \<^verbatim>\<open>struct master_index_triage\<close>, declared in a header that is not under src/. The
  record handle carries "found/not-found status, collision flag, target chapter" and a
  reference to a zone mutex; \<^verbatim>\<open>Mutex *mutex\<close> is the number of the zone whose
  \<^verbatim>\<open>hookMutex\<close> it points to, or \<open>None\<close> for a null pointer. The triage carries
  \<open>{isSample, inSampledChapter, zone}\<close> and the virtual chapter the source's comment names.
\<close>

record master_index_record =
  isFound :: bool
  isCollision :: bool
  recordChapter :: "64 word"
  mutex :: "nat option"

record master_index_triage =
  virtualChapter :: "64 word"
  zone :: "32 word"
  isSample :: bool
  inSampledChapter :: bool

text \<open>
  Modelled from the spec: the buffered writer and reader, which are not under src/:
  "sequential byte-stream sinks/sources with write(bytes)/read(bytes) -> exact-or-error
  semantics". A writer appends all the bytes or, once it has an error, returns it. A reader
  hands out exactly the bytes asked for or fails: at the end of the stream, or on a short read.
\<close>

record buffered_writer =
  bw_written :: "byte list"
  bw_error :: uds_result

record buffered_reader =
  br_remaining :: "byte list"

definition write_to_buffered_writer ::
  "buffered_writer \<Rightarrow> byte list \<Rightarrow> uds_result \<times> buffered_writer" where
  "write_to_buffered_writer bw bytes =
     (if bw_error bw \<noteq> UDS_SUCCESS then (bw_error bw, bw)
      else (UDS_SUCCESS, bw\<lparr>bw_written := bw_written bw @ bytes\<rparr>))"

definition read_from_buffered_reader ::
  "buffered_reader \<Rightarrow> nat \<Rightarrow> uds_result \<times> byte list \<times> buffered_reader" where
  "read_from_buffered_reader br n =
     (if n \<le> length (br_remaining br)
      then (UDS_SUCCESS, take n (br_remaining br),
            br\<lparr>br_remaining := drop n (br_remaining br)\<rparr>)
      else if br_remaining br = [] then (UDS_END_OF_FILE, [], br)
      else (UDS_SHORT_READ, br_remaining br, br\<lparr>br_remaining := []\<rparr>))"

text \<open>
  Modelled from the spec: \<^verbatim>\<open>struct master_index\<close> and the functions that dispatch
  through it, declared in a header that is not under src/. A sub-index is a table of
  function pointers over its own private state \<open>impl\<close>, "consumed only through its
  standard index interface (lookup, insert, save/restore, stats)". Only the
  operations the functions modelled here call are kept. An operation that may change the
  sub-index returns its new private state.
\<close>

record 's master_index =
  impl :: 's
  op_getMasterIndexZone :: "'s \<Rightarrow> uds_chunk_name \<Rightarrow> 32 word"
  op_getMasterIndexRecord ::
    "'s \<Rightarrow> uds_chunk_name \<Rightarrow> master_index_record \<Rightarrow> uds_result \<times> master_index_record \<times> 's"
  op_lookupMasterIndexSampledName ::
    "'s \<Rightarrow> uds_chunk_name \<Rightarrow> master_index_triage \<Rightarrow> uds_result \<times> master_index_triage"
  op_startSavingMasterIndex ::
    "'s \<Rightarrow> 32 word \<Rightarrow> buffered_writer \<Rightarrow> uds_result \<times> buffered_writer \<times> 's"
  op_isSavingMasterIndexDone :: "'s \<Rightarrow> 32 word \<Rightarrow> bool"
  op_finishSavingMasterIndex :: "'s \<Rightarrow> 32 word \<Rightarrow> uds_result \<times> 's"
  op_abortSavingMasterIndex :: "'s \<Rightarrow> 32 word \<Rightarrow> uds_result \<times> 's"
  op_startRestoringMasterIndex ::
    "'s \<Rightarrow> buffered_reader list \<Rightarrow> int \<Rightarrow> uds_result \<times> buffered_reader list \<times> 's"
  op_setMasterIndexTag :: "'s \<Rightarrow> byte \<Rightarrow> 's"

text \<open>The dispatching functions of the master index interface: call through the table.\<close>

definition getMasterIndexZone :: "'s master_index \<Rightarrow> uds_chunk_name \<Rightarrow> 32 word" where
  "getMasterIndexZone mi name = op_getMasterIndexZone mi (impl mi) name"

definition getMasterIndexRecord ::
  "'s master_index \<Rightarrow> uds_chunk_name \<Rightarrow> master_index_record
     \<Rightarrow> uds_result \<times> master_index_record \<times> 's master_index" where
  "getMasterIndexRecord mi name record =
     (case op_getMasterIndexRecord mi (impl mi) name record of
        (result, record', s) \<Rightarrow> (result, record', mi\<lparr>impl := s\<rparr>))"

definition lookupMasterIndexSampledName ::
  "'s master_index \<Rightarrow> uds_chunk_name \<Rightarrow> master_index_triage
     \<Rightarrow> uds_result \<times> master_index_triage" where
  "lookupMasterIndexSampledName mi name triage =
     op_lookupMasterIndexSampledName mi (impl mi) name triage"

definition startSavingMasterIndex ::
  "'s master_index \<Rightarrow> 32 word \<Rightarrow> buffered_writer
     \<Rightarrow> uds_result \<times> buffered_writer \<times> 's master_index" where
  "startSavingMasterIndex mi zoneNumber bufferedWriter =
     (case op_startSavingMasterIndex mi (impl mi) zoneNumber bufferedWriter of
        (result, bw, s) \<Rightarrow> (result, bw, mi\<lparr>impl := s\<rparr>))"

definition isSavingMasterIndexDone :: "'s master_index \<Rightarrow> 32 word \<Rightarrow> bool" where
  "isSavingMasterIndexDone mi zoneNumber = op_isSavingMasterIndexDone mi (impl mi) zoneNumber"

definition finishSavingMasterIndex ::
  "'s master_index \<Rightarrow> 32 word \<Rightarrow> uds_result \<times> 's master_index" where
  "finishSavingMasterIndex mi zoneNumber =
     (case op_finishSavingMasterIndex mi (impl mi) zoneNumber of
        (result, s) \<Rightarrow> (result, mi\<lparr>impl := s\<rparr>))"

definition abortSavingMasterIndex ::
  "'s master_index \<Rightarrow> 32 word \<Rightarrow> uds_result \<times> 's master_index" where
  "abortSavingMasterIndex mi zoneNumber =
     (case op_abortSavingMasterIndex mi (impl mi) zoneNumber of
        (result, s) \<Rightarrow> (result, mi\<lparr>impl := s\<rparr>))"

definition startRestoringMasterIndex ::
  "'s master_index \<Rightarrow> buffered_reader list \<Rightarrow> int
     \<Rightarrow> uds_result \<times> buffered_reader list \<times> 's master_index" where
  "startRestoringMasterIndex mi bufferedReaders numReaders =
     (case op_startRestoringMasterIndex mi (impl mi) bufferedReaders numReaders of
        (result, brs, s) \<Rightarrow> (result, brs, mi\<lparr>impl := s\<rparr>))"

definition setMasterIndexTag :: "'s master_index \<Rightarrow> byte \<Rightarrow> 's master_index" where
  "setMasterIndexTag mi tag = mi\<lparr>impl := op_setMasterIndexTag mi (impl mi) tag\<rparr>"


section \<open>The composite master index\<close>

text \<open>
  \<^verbatim>\<open>struct master_index6\<close>. The member \<open>common\<close>, the composite's own function table, is
  the set of \<open>_006\<close> functions below. \<open>history\<close> is not a member of the struct: it lists, in
  order, the mutex operations and the calls into a sub-index that the \<open>_006\<close> functions
  have made, so that properties of locking and of the order of calls can be stated.
\<close>

datatype sub_index = NonHook | Hook

datatype operation =
    GetMasterIndexZone
  | GetMasterIndexRecord
  | LookupMasterIndexSampledName
  | StartSavingMasterIndex
  | IsSavingMasterIndexDone
  | FinishSavingMasterIndex
  | AbortSavingMasterIndex
  | StartRestoringMasterIndex

datatype event = LockMutex nat | UnlockMutex nat | Call sub_index operation

record 's master_index6 =
  sparseSampleRate :: "32 word"
  numZones :: "32 word"
  miNonHook :: "'s master_index"
  miHook :: "'s master_index"
  masterZones :: "master_index_zone list"
  history :: "event list"

definition log_event :: "event \<Rightarrow> 's master_index6 \<Rightarrow> 's master_index6" where
  "log_event e mi6 = mi6\<lparr>history := history mi6 @ [e]\<rparr>"

text \<open>
  Modelled from the spec: \<^verbatim>\<open>lockMutex\<close> and \<^verbatim>\<open>unlockMutex\<close> of threads.h, which is
  not under src/, on "one mutex per zone": \<^verbatim>\<open>lockMutex(&mi6->masterZones[zone].hookMutex)\<close>
  and the matching unlock. A zone number past the end of the array is an access out of
  bounds.
\<close>

definition lockMutex :: "nat \<Rightarrow> 's master_index6 \<Rightarrow> fault + 's master_index6" where
  "lockMutex z mi6 =
     (if length (masterZones mi6) \<le> z then Inl OutOfBounds
      else if hookMutex (masterZones mi6 ! z) = Locked then Inl Deadlock
      else Inr (log_event (LockMutex z)
                  (mi6\<lparr>masterZones := (masterZones mi6)[z := \<lparr>hookMutex = Locked\<rparr>]\<rparr>)))"

definition unlockMutex :: "nat \<Rightarrow> 's master_index6 \<Rightarrow> fault + 's master_index6" where
  "unlockMutex z mi6 =
     (if length (masterZones mi6) \<le> z then Inl OutOfBounds
      else if hookMutex (masterZones mi6 ! z) = Unlocked then Inl UnlockNotHeld
      else Inr (log_event (UnlockMutex z)
                  (mi6\<lparr>masterZones := (masterZones mi6)[z := \<lparr>hookMutex = Unlocked\<rparr>]\<rparr>)))"

text \<open>
  \<^verbatim>\<open>extract_sampling_bytes\<close> is declared in hashUtils.h, which is not under src/: it is
  the parameter \<open>extract_sampling_bytes\<close> of the functions that classify a name. The
  remainder is taken on \<^verbatim>\<open>unsigned int\<close>; a zero rate divides by zero.
\<close>

definition isMasterIndexSample_006 ::
  "(uds_chunk_name \<Rightarrow> 32 word) \<Rightarrow> 's master_index6 \<Rightarrow> uds_chunk_name \<Rightarrow> fault + bool" where
  "isMasterIndexSample_006 extract_sampling_bytes mi6 name =
     (if sparseSampleRate mi6 = 0 then Inl DivideByZero
      else Inr (extract_sampling_bytes name mod sparseSampleRate mi6 = 0))"

definition getSubIndex ::
  "(uds_chunk_name \<Rightarrow> 32 word) \<Rightarrow> 's master_index6 \<Rightarrow> uds_chunk_name \<Rightarrow> fault + sub_index" where
  "getSubIndex extract_sampling_bytes mi6 name =
     bindF (isMasterIndexSample_006 extract_sampling_bytes mi6 name) (\<lambda>sample.
     Inr (if sample then Hook else NonHook))"

definition the_sub_index :: "'s master_index6 \<Rightarrow> sub_index \<Rightarrow> 's master_index" where
  "the_sub_index mi6 which = (case which of NonHook \<Rightarrow> miNonHook mi6 | Hook \<Rightarrow> miHook mi6)"

definition getMasterIndexZone_006 ::
  "(uds_chunk_name \<Rightarrow> 32 word) \<Rightarrow> 's master_index6 \<Rightarrow> uds_chunk_name
     \<Rightarrow> fault + (32 word \<times> 's master_index6)" where
  "getMasterIndexZone_006 extract_sampling_bytes mi6 name =
     bindF (getSubIndex extract_sampling_bytes mi6 name) (\<lambda>which.
     Inr (getMasterIndexZone (the_sub_index mi6 which) name,
          log_event (Call which GetMasterIndexZone) mi6))"

definition lookupMasterIndexName_006 ::
  "(uds_chunk_name \<Rightarrow> 32 word) \<Rightarrow> 's master_index6 \<Rightarrow> uds_chunk_name \<Rightarrow> master_index_triage
     \<Rightarrow> fault + (uds_result \<times> master_index_triage \<times> 's master_index6)" where
  "lookupMasterIndexName_006 extract_sampling_bytes mi6 name triage =
     bindF (isMasterIndexSample_006 extract_sampling_bytes mi6 name) (\<lambda>sample.
     let triage1 = triage\<lparr>isSample := sample\<rparr>;
         triage2 = triage1\<lparr>inSampledChapter := False\<rparr> in
     bindF (getMasterIndexZone_006 extract_sampling_bytes mi6 name) (\<lambda>(z, mi6a).
     let triage3 = triage2\<lparr>zone := z\<rparr>;
         result = UDS_SUCCESS in
     if isSample triage3 then
       let mutex = unat (zone triage3) in
       bindF (lockMutex mutex mi6a) (\<lambda>mi6b.
       case lookupMasterIndexSampledName (miHook mi6b) name triage3 of (result', triage4) \<Rightarrow>
       bindF (unlockMutex mutex (log_event (Call Hook LookupMasterIndexSampledName) mi6b)) (\<lambda>mi6c.
       Inr (result', triage4, mi6c)))
     else Inr (result, triage3, mi6a)))"

definition lookupMasterIndexSampledName_006 ::
  "'s master_index6 \<Rightarrow> uds_chunk_name \<Rightarrow> master_index_triage
     \<Rightarrow> uds_result \<times> master_index_triage \<times> 's master_index6" where
  "lookupMasterIndexSampledName_006 mi6 name triage =
     (ASSERT_WITH_ERROR_CODE False UDS_BAD_STATE, triage, mi6)"

definition getMasterIndexRecord_006 ::
  "(uds_chunk_name \<Rightarrow> 32 word) \<Rightarrow> 's master_index6 \<Rightarrow> uds_chunk_name \<Rightarrow> master_index_record
     \<Rightarrow> fault + (uds_result \<times> master_index_record \<times> 's master_index6)" where
  "getMasterIndexRecord_006 extract_sampling_bytes mi6 name record =
     bindF (isMasterIndexSample_006 extract_sampling_bytes mi6 name) (\<lambda>sample.
     if sample then
       let z = getMasterIndexZone (miHook mi6) name;
           mi6a = log_event (Call Hook GetMasterIndexZone) mi6;
           mutex = unat z in
       bindF (lockMutex mutex mi6a) (\<lambda>mi6b.
       case getMasterIndexRecord (miHook mi6b) name record of (result, record1, hook) \<Rightarrow>
       bindF (unlockMutex mutex (log_event (Call Hook GetMasterIndexRecord) (mi6b\<lparr>miHook := hook\<rparr>)))
         (\<lambda>mi6c.
       Inr (result, record1\<lparr>mutex := Some mutex\<rparr>, mi6c)))
     else
       case getMasterIndexRecord (miNonHook mi6) name record of (result, record1, nonHook) \<Rightarrow>
       Inr (result, record1, log_event (Call NonHook GetMasterIndexRecord) (mi6\<lparr>miNonHook := nonHook\<rparr>)))"


section \<open>The saved header\<close>

text \<open>
  Modelled from the spec: \<^verbatim>\<open>struct buffer\<close> and its functions, of buffer.c, which is
  not under src/. A buffer is a byte array of fixed length with a start and an end; its
  content is what lies between them. Putting bytes appends them at the end and fails when
  there is no room; getting bytes removes them from the start and fails when the content is
  too short. \<open>mem\<close> is the number of bytes the allocator can still hand out:
  \<^verbatim>\<open>make_buffer\<close> fails when the buffer does not fit.
\<close>

record buffer =
  b_start :: nat
  b_end :: nat
  b_length :: nat
  b_data :: "byte list"

definition make_buffer :: "nat \<Rightarrow> nat \<Rightarrow> uds_result + buffer" where
  "make_buffer mem n =
     (if mem < n then Inl ENOMEM
      else Inr \<lparr>b_start = 0, b_end = 0, b_length = n, b_data = replicate n 0\<rparr>)"

definition buffer_length :: "buffer \<Rightarrow> nat" where
  "buffer_length b = b_length b"

definition content_length :: "buffer \<Rightarrow> nat" where
  "content_length b = b_end b - b_start b"

definition get_buffer_contents :: "buffer \<Rightarrow> byte list" where
  "get_buffer_contents b = drop (b_start b) (b_data b)"

definition put_bytes :: "buffer \<Rightarrow> nat \<Rightarrow> byte list \<Rightarrow> uds_result \<times> buffer" where
  "put_bytes b n source =
     (if b_length b - b_end b < n then (UDS_BUFFER_ERROR, b)
      else (UDS_SUCCESS,
            b\<lparr>b_data := take (b_end b) (b_data b) @ take n source @ drop (b_end b + n) (b_data b),
              b_end := b_end b + n\<rparr>))"

definition uint32_le :: "32 word \<Rightarrow> byte list" where
  "uint32_le v = [ucast v, ucast (drop_bit 8 v), ucast (drop_bit 16 v), ucast (drop_bit 24 v)]"

definition put_uint32_le_into_buffer :: "buffer \<Rightarrow> 32 word \<Rightarrow> uds_result \<times> buffer" where
  "put_uint32_le_into_buffer b v = put_bytes b 4 (uint32_le v)"

definition get_bytes_from_buffer :: "buffer \<Rightarrow> nat \<Rightarrow> uds_result \<times> byte list \<times> buffer" where
  "get_bytes_from_buffer b n =
     (if content_length b < n then (UDS_BUFFER_ERROR, [], b)
      else (UDS_SUCCESS, take n (get_buffer_contents b), b\<lparr>b_start := b_start b + n\<rparr>))"

definition uint32_from_le :: "byte list \<Rightarrow> 32 word" where
  "uint32_from_le bytes =
     ucast (bytes ! 0) + push_bit 8 (ucast (bytes ! 1)) + push_bit 16 (ucast (bytes ! 2))
       + push_bit 24 (ucast (bytes ! 3))"

definition get_uint32_le_from_buffer :: "buffer \<Rightarrow> uds_result \<times> 32 word \<times> buffer" where
  "get_uint32_le_from_buffer b =
     (if content_length b < 4 then (UDS_BUFFER_ERROR, 0, b)
      else (UDS_SUCCESS, uint32_from_le (take 4 (get_buffer_contents b)),
            b\<lparr>b_start := b_start b + 4\<rparr>))"

definition reset_buffer_end :: "buffer \<Rightarrow> nat \<Rightarrow> uds_result \<times> buffer" where
  "reset_buffer_end b e =
     (if b_length b < e then (UDS_BUFFER_ERROR, b)
      else (UDS_SUCCESS, b\<lparr>b_start := min (b_start b) e, b_end := e\<rparr>))"

text \<open>What a read of \<open>bytes\<close> into the memory at \<^verbatim>\<open>get_buffer_contents(buffer)\<close> leaves.\<close>

definition read_into_buffer :: "buffer \<Rightarrow> byte list \<Rightarrow> buffer" where
  "read_into_buffer b bytes =
     b\<lparr>b_data := take (b_start b) (b_data b) @ bytes
                   @ drop (b_start b + length bytes) (b_data b)\<rparr>"

text \<open>
  \<^verbatim>\<open>enum { MAGIC_SIZE = 8 }; static const char MAGIC_MI_START[] = "MI6-0001";\<close> The
  terminating zero of the C string is never copied. \<^verbatim>\<open>struct mi006_data\<close> is eight
  characters and an \<^verbatim>\<open>unsigned int\<close>: twelve bytes, which the assertion at the end of
  \<^verbatim>\<open>encodeMasterIndexHeader\<close> expects of the encoding.
\<close>

definition MAGIC_SIZE :: nat where
  "MAGIC_SIZE = 8"

definition MAGIC_MI_START :: "byte list" where
  "MAGIC_MI_START = [0x4D, 0x49, 0x36, 0x2D, 0x30, 0x30, 0x30, 0x31]"

record mi006_data =
  magic :: "byte list"
  data_sparseSampleRate :: "32 word"

definition sizeof_mi006_data :: nat where
  "sizeof_mi006_data = 12"

definition encodeMasterIndexHeader :: "buffer \<Rightarrow> mi006_data \<Rightarrow> uds_result \<times> buffer" where
  "encodeMasterIndexHeader buffer header =
     (case put_bytes buffer MAGIC_SIZE MAGIC_MI_START of (result, buffer1) \<Rightarrow>
      if result \<noteq> UDS_SUCCESS then (result, buffer1) else
      case put_uint32_le_into_buffer buffer1 (data_sparseSampleRate header) of
        (result, buffer2) \<Rightarrow>
      if result \<noteq> UDS_SUCCESS then (result, buffer2) else
      (ASSERT_LOG_ONLY (content_length buffer2 = sizeof_mi006_data), buffer2))"

definition decodeMasterIndexHeader ::
  "buffer \<Rightarrow> mi006_data \<Rightarrow> uds_result \<times> buffer \<times> mi006_data" where
  "decodeMasterIndexHeader buffer header =
     (case get_bytes_from_buffer buffer MAGIC_SIZE of (result, bytes, buffer1) \<Rightarrow>
      if result \<noteq> UDS_SUCCESS then (result, buffer1, header) else
      let header1 = header\<lparr>magic := bytes\<rparr> in
      case get_uint32_le_from_buffer buffer1 of (result, rate, buffer2) \<Rightarrow>
      if result \<noteq> UDS_SUCCESS then (result, buffer2, header1) else
      let header2 = header1\<lparr>data_sparseSampleRate := rate\<rparr>;
          result = ASSERT_LOG_ONLY (content_length buffer2 = 0) in
      (if result \<noteq> UDS_SUCCESS then UDS_CORRUPT_COMPONENT else result, buffer2, header2))"


section \<open>Saving\<close>

definition startSavingMasterIndex_006 ::
  "nat \<Rightarrow> 's master_index6 \<Rightarrow> 32 word \<Rightarrow> buffered_writer
     \<Rightarrow> uds_result \<times> buffered_writer \<times> 's master_index6" where
  "startSavingMasterIndex_006 mem mi6 zoneNumber bufferedWriter =
     (case make_buffer mem sizeof_mi006_data of
        Inl result \<Rightarrow> (result, bufferedWriter, mi6)
      | Inr buffer \<Rightarrow>
        let header0 = \<lparr>magic = replicate MAGIC_SIZE 0, data_sparseSampleRate = 0\<rparr>;
            header1 = header0\<lparr>magic := take MAGIC_SIZE MAGIC_MI_START\<rparr>;
            header2 = header1\<lparr>data_sparseSampleRate := sparseSampleRate mi6\<rparr> in
        case encodeMasterIndexHeader buffer header2 of (result, buffer1) \<Rightarrow>
        if result \<noteq> UDS_SUCCESS then (result, bufferedWriter, mi6) else
        case write_to_buffered_writer bufferedWriter
               (take (content_length buffer1) (get_buffer_contents buffer1)) of
          (result, bw1) \<Rightarrow>
        if result \<noteq> UDS_SUCCESS then (logWarningWithStringError result, bw1, mi6) else
        case startSavingMasterIndex (miNonHook mi6) zoneNumber bw1 of
          (result, bw2, nonHook) \<Rightarrow>
        let mi6a = log_event (Call NonHook StartSavingMasterIndex) (mi6\<lparr>miNonHook := nonHook\<rparr>) in
        if result \<noteq> UDS_SUCCESS then (result, bw2, mi6a) else
        case startSavingMasterIndex (miHook mi6a) zoneNumber bw2 of
          (result, bw3, hook) \<Rightarrow>
        let mi6b = log_event (Call Hook StartSavingMasterIndex) (mi6a\<lparr>miHook := hook\<rparr>) in
        if result \<noteq> UDS_SUCCESS then (result, bw3, mi6b) else
        (UDS_SUCCESS, bw3, mi6b))"

text \<open>\<^verbatim>\<open>a && b\<close> evaluates \<open>b\<close> only when \<open>a\<close> is true.\<close>

definition isSavingMasterIndexDone_006 ::
  "'s master_index6 \<Rightarrow> 32 word \<Rightarrow> bool \<times> 's master_index6" where
  "isSavingMasterIndexDone_006 mi6 zoneNumber =
     (let mi6a = log_event (Call NonHook IsSavingMasterIndexDone) mi6 in
      if isSavingMasterIndexDone (miNonHook mi6) zoneNumber
      then (isSavingMasterIndexDone (miHook mi6) zoneNumber,
            log_event (Call Hook IsSavingMasterIndexDone) mi6a)
      else (False, mi6a))"

definition finishSavingMasterIndex_006 ::
  "'s master_index6 \<Rightarrow> 32 word \<Rightarrow> uds_result \<times> 's master_index6" where
  "finishSavingMasterIndex_006 mi6 zoneNumber =
     (case finishSavingMasterIndex (miNonHook mi6) zoneNumber of (result, nonHook) \<Rightarrow>
      let mi6a = log_event (Call NonHook FinishSavingMasterIndex) (mi6\<lparr>miNonHook := nonHook\<rparr>) in
      if result = UDS_SUCCESS then
        case finishSavingMasterIndex (miHook mi6a) zoneNumber of (result', hook) \<Rightarrow>
        (result', log_event (Call Hook FinishSavingMasterIndex) (mi6a\<lparr>miHook := hook\<rparr>))
      else (result, mi6a))"

definition abortSavingMasterIndex_006 ::
  "'s master_index6 \<Rightarrow> 32 word \<Rightarrow> uds_result \<times> 's master_index6" where
  "abortSavingMasterIndex_006 mi6 zoneNumber =
     (case abortSavingMasterIndex (miNonHook mi6) zoneNumber of (result, nonHook) \<Rightarrow>
      let mi6a = log_event (Call NonHook AbortSavingMasterIndex) (mi6\<lparr>miNonHook := nonHook\<rparr>) in
      case abortSavingMasterIndex (miHook mi6a) zoneNumber of (result2, hook) \<Rightarrow>
      let mi6b = log_event (Call Hook AbortSavingMasterIndex) (mi6a\<lparr>miHook := hook\<rparr>) in
      (if result = UDS_SUCCESS then result2 else result, mi6b))"


section \<open>Restoring\<close>

text \<open>
  The loop of \<^verbatim>\<open>startRestoringMasterIndex_006\<close> over the readers, from index \<open>i\<close>.
  \<open>Some result\<close> is a \<^verbatim>\<open>return result\<close> from inside the loop, \<open>None\<close> is the loop
  running to its end. \<^verbatim>\<open>struct mi006_data header\<close> is not initialised in C and is
  written by the decoder before it is read: the model starts it with zeros. The counter
  \<open>i\<close> stays below \<open>numReaders\<close>, an \<^verbatim>\<open>int\<close>, and cannot overflow.
\<close>

function restore_headers ::
  "nat \<Rightarrow> 's master_index6 \<Rightarrow> buffered_reader list \<Rightarrow> int \<Rightarrow> nat
     \<Rightarrow> fault + (uds_result option \<times> 's master_index6 \<times> buffered_reader list)" where
  "restore_headers mem mi6 bufferedReaders numReaders i =
     (if int i < numReaders then
        (case make_buffer mem sizeof_mi006_data of
           Inl result \<Rightarrow> Inr (Some result, mi6, bufferedReaders)
         | Inr buffer \<Rightarrow>
           if length bufferedReaders \<le> i then Inl OutOfBounds else
           (case read_from_buffered_reader (bufferedReaders ! i) (buffer_length buffer) of
              (result, bytes, reader) \<Rightarrow>
            let readers1 = bufferedReaders[i := reader];
                buffer1 = read_into_buffer buffer bytes in
            if result \<noteq> UDS_SUCCESS
            then Inr (Some (logWarningWithStringError result), mi6, readers1) else
            (case reset_buffer_end buffer1 (buffer_length buffer1) of (result, buffer2) \<Rightarrow>
             if result \<noteq> UDS_SUCCESS then Inr (Some result, mi6, readers1) else
             (case decodeMasterIndexHeader buffer2
                     \<lparr>magic = replicate MAGIC_SIZE 0, data_sparseSampleRate = 0\<rparr> of
                (result, buffer3, header) \<Rightarrow>
              if result \<noteq> UDS_SUCCESS then Inr (Some result, mi6, readers1) else
              if magic header \<noteq> take MAGIC_SIZE MAGIC_MI_START
              then Inr (Some (logWarningWithStringError UDS_CORRUPT_COMPONENT), mi6, readers1)
              else if i = 0
              then restore_headers mem
                     (mi6\<lparr>sparseSampleRate := data_sparseSampleRate header\<rparr>)
                     readers1 numReaders (i + 1)
              else if sparseSampleRate mi6 \<noteq> data_sparseSampleRate header
              then Inr (Some UDS_CORRUPT_COMPONENT, mi6, readers1)
              else restore_headers mem mi6 readers1 numReaders (i + 1)))))
      else Inr (None, mi6, bufferedReaders))"
  by pat_completeness auto
termination
  by (relation "measure (\<lambda>(mem, mi6, bufferedReaders, numReaders, i). nat (numReaders - int i))")
     auto

declare restore_headers.simps [simp del]

text \<open>
  The header of a saved stream in the words of the spec: "8-byte ASCII magic literal, then
  a 4-byte little-endian unsigned integer sample rate; total fixed header size is exactly
  12 bytes". \<open>header_magic\<close> and \<open>header_rate\<close> are what a reader's next twelve bytes
  say, \<open>skip_header\<close> is the reader once they have been read.
\<close>

definition header_magic :: "buffered_reader \<Rightarrow> byte list" where
  "header_magic br = take 8 (br_remaining br)"

definition header_rate :: "buffered_reader \<Rightarrow> 32 word" where
  "header_rate br = uint32_from_le (take 4 (drop 8 (br_remaining br)))"

definition skip_header :: "buffered_reader \<Rightarrow> buffered_reader" where
  "skip_header br = br\<lparr>br_remaining := drop 12 (br_remaining br)\<rparr>"

text \<open>
  Every reader of the list starts with the magic and with the same given rate: the
  headers describe one index.
\<close>

definition headers_agree :: "32 word \<Rightarrow> buffered_reader list \<Rightarrow> bool" where
  "headers_agree rate readers =
     list_all (\<lambda>br. header_magic br = MAGIC_MI_START \<and> header_rate br = rate) readers"

text \<open>
  \<open>masterIndex\<close> is a pointer that may be null: \<open>None\<close>. The readers are handed on to the
  sub-indices as the loop left them.
\<close>

definition startRestoringMasterIndex_006 ::
  "nat \<Rightarrow> 's master_index6 option \<Rightarrow> buffered_reader list \<Rightarrow> int
     \<Rightarrow> fault + (uds_result \<times> 's master_index6 option \<times> buffered_reader list)" where
  "startRestoringMasterIndex_006 mem masterIndex bufferedReaders numReaders =
     (let result = ASSERT_WITH_ERROR_CODE (masterIndex \<noteq> None) UDS_BAD_STATE in
      if result \<noteq> UDS_SUCCESS then Inr (result, masterIndex, bufferedReaders) else
      case masterIndex of
        None \<Rightarrow> Inl InvalidPointer
      | Some mi6 \<Rightarrow>
        bindF (restore_headers mem mi6 bufferedReaders numReaders 0) (\<lambda>(exit, mi6a, readers1).
        case exit of
          Some result \<Rightarrow> Inr (result, Some mi6a, readers1)
        | None \<Rightarrow>
          (case startRestoringMasterIndex (miNonHook mi6a) readers1 numReaders of
             (result, readers2, nonHook) \<Rightarrow>
           let mi6b = log_event (Call NonHook StartRestoringMasterIndex)
                        (mi6a\<lparr>miNonHook := nonHook\<rparr>) in
           if result \<noteq> UDS_SUCCESS then Inr (result, Some mi6b, readers2) else
           (case startRestoringMasterIndex (miHook mi6b) readers2 numReaders of
              (result', readers3, hook) \<Rightarrow>
            Inr (result',
                 Some (log_event (Call Hook StartRestoringMasterIndex) (mi6b\<lparr>miHook := hook\<rparr>)),
                 readers3)))))"


section \<open>Save size and construction\<close>

text \<open>
  \<^verbatim>\<open>compute_master_index_save_bytes005\<close> and \<^verbatim>\<open>make_master_index005\<close> belong to the
  sub-index implementation, which is not under src/: they are parameters. The first returns
  a result code and the byte count it stores; \<^verbatim>\<open>size_t\<close> is 64 bits wide. \<open>numBytes\<close> is
  what \<^verbatim>\<open>*numBytes\<close> held before the call.
\<close>

definition computeMasterIndexSaveBytes006 ::
  "(memory \<Rightarrow> ref \<Rightarrow> uds_result \<times> 64 word) \<Rightarrow> memory \<Rightarrow> ref \<Rightarrow> 64 word
     \<Rightarrow> fault + (uds_result \<times> 64 word \<times> memory)" where
  "computeMasterIndexSaveBytes006 compute_master_index_save_bytes005 m config numBytes =
     bindF (splitConfiguration006 m config) (\<lambda>(result, m1).
     if result \<noteq> UDS_SUCCESS then Inr (result, numBytes, m1) else
     case compute_master_index_save_bytes005 m1 Split_hookConfig of (result, hookBytes) \<Rightarrow>
     if result \<noteq> UDS_SUCCESS then Inr (result, numBytes, m1) else
     case compute_master_index_save_bytes005 m1 Split_nonHookConfig of
       (result, nonHookBytes) \<Rightarrow>
     if result \<noteq> UDS_SUCCESS then Inr (result, numBytes, m1) else
     Inr (UDS_SUCCESS, of_nat sizeof_mi006_data + hookBytes + nonHookBytes, m1))"

text \<open>
  Construction acquires and releases resources outside the composite: the result lists
  them in order. The environment says which allocations and mutex initialisations succeed
  and builds the sub-indices.
\<close>

datatype resource =
    The_master_index6
  | The_masterZones
  | The_hookMutex nat
  | The_sub_index sub_index

datatype effect = Acquire resource | Release resource

record 's environment =
  allocate_master_index6 :: uds_result
  allocate_masterZones :: uds_result
  initMutex :: "nat \<Rightarrow> uds_result"
  make_master_index005 :: "memory \<Rightarrow> ref \<Rightarrow> 32 word \<Rightarrow> 64 word \<Rightarrow> uds_result \<times> 's master_index"

text \<open>
  \<^verbatim>\<open>freeMasterIndex_006\<close> on the composite as far as it has been built: the zone array
  if it is not null (every one of the \<open>numZones\<close> mutexes is destroyed), then the non-hook
  index and the hook index if they are not null, then the composite.
\<close>

definition freeMasterIndex_006 ::
  "32 word \<Rightarrow> bool \<Rightarrow> bool \<Rightarrow> bool \<Rightarrow> effect list" where
  "freeMasterIndex_006 n haveZones haveNonHook haveHook =
     (if haveZones
      then map (\<lambda>z. Release (The_hookMutex z)) [0..<unat n] @ [Release The_masterZones]
      else [])
     @ (if haveNonHook then [Release (The_sub_index NonHook)] else [])
     @ (if haveHook then [Release (The_sub_index Hook)] else [])
     @ [Release The_master_index6]"

text \<open>
  \<^verbatim>\<open>for (zone = 0; zone < numZones; zone++) { if (result == UDS_SUCCESS) { result =
  initMutex(...); } }\<close>
\<close>

fun init_mutexes :: "(nat \<Rightarrow> uds_result) \<Rightarrow> nat list \<Rightarrow> uds_result \<Rightarrow> uds_result \<times> effect list" where
  "init_mutexes init [] result = (result, [])"
| "init_mutexes init (z # zs) result =
     (if result = UDS_SUCCESS
      then (case init_mutexes init zs (init z) of (result', fx) \<Rightarrow>
              (result', (if init z = UDS_SUCCESS then [Acquire (The_hookMutex z)] else []) @ fx))
      else init_mutexes init zs result)"

definition makeMasterIndex006 ::
  "'s environment \<Rightarrow> memory \<Rightarrow> ref \<Rightarrow> 32 word \<Rightarrow> 64 word
     \<Rightarrow> fault + (uds_result \<times> 's master_index6 option \<times> memory \<times> effect list)" where
  "makeMasterIndex006 env m config n volumeNonce =
     bindF (splitConfiguration006 m config) (\<lambda>(result, m1).
     if result \<noteq> UDS_SUCCESS then Inr (result, None, m1, []) else
     let result = allocate_master_index6 env in
     if result \<noteq> UDS_SUCCESS then Inr (result, None, m1, []) else
     let fx1 = [Acquire The_master_index6] in
     bindF (load_configuration m1 config) (\<lambda>c.
     let result = allocate_masterZones env;
         haveZones = (result = UDS_SUCCESS);
         fx2 = fx1 @ (if haveZones then [Acquire The_masterZones] else []) in
     case init_mutexes (initMutex env) [0..<unat n] result of (result, fx3) \<Rightarrow>
     if result \<noteq> UDS_SUCCESS
     then Inr (result, None, m1, fx2 @ fx3 @ freeMasterIndex_006 n haveZones False False) else
     case make_master_index005 env m1 Split_nonHookConfig n volumeNonce of
       (result, nonHook) \<Rightarrow>
     if result \<noteq> UDS_SUCCESS
     then Inr (logErrorWithStringError result, None, m1,
               fx2 @ fx3 @ freeMasterIndex_006 n haveZones False False) else
     let fx4 = fx2 @ fx3 @ [Acquire (The_sub_index NonHook)];
         nonHook1 = setMasterIndexTag nonHook 0x64 in
     case make_master_index005 env m1 Split_hookConfig n volumeNonce of (result, hook) \<Rightarrow>
     if result \<noteq> UDS_SUCCESS
     then Inr (logErrorWithStringError result, None, m1,
               fx4 @ freeMasterIndex_006 n haveZones True False) else
     let hook1 = setMasterIndexTag hook 0x73 in
     Inr (UDS_SUCCESS,
          Some \<lparr>sparseSampleRate = sparse_sample_rate c, numZones = n,
                miNonHook = nonHook1, miHook = hook1,
                masterZones = replicate (unat n) \<lparr>hookMutex = Unlocked\<rparr>,
                history = []\<rparr>,
          m1, fx4 @ [Acquire (The_sub_index Hook)])))"


section \<open>Concrete inputs\<close>

text \<open>
  A configuration of 1000 chapters, 100 of them sparse, 100 records per chapter and a
  sample rate of 10, owned by the caller; and the same geometry with a sample rate of 0.
\<close>

definition example_memory :: memory where
  "example_memory =
     \<lparr>configurations = Map.empty
        (Caller 0 \<mapsto> \<lparr>geometry = Caller 1, sparse_sample_rate = 10\<rparr>,
         Caller 2 \<mapsto> \<lparr>geometry = Caller 1, sparse_sample_rate = 0\<rparr>),
      geometries = Map.empty
        (Caller 1 \<mapsto> \<lparr>chapters_per_volume = 1000, sparse_chapters_per_volume = 100,
                      records_per_chapter = 100\<rparr>)\<rparr>"

text \<open>
  A sub-index over a counter of the records it was asked for. It puts every name in
  zone 0, finds nothing, saves the one byte \<open>tag\<close> and finishes a save with \<open>code\<close>.
\<close>

definition example_sub_index :: "byte \<Rightarrow> uds_result \<Rightarrow> nat master_index" where
  "example_sub_index tag code =
     \<lparr>impl = 0,
      op_getMasterIndexZone = (\<lambda>s name. 0),
      op_getMasterIndexRecord =
        (\<lambda>s name r. (UDS_SUCCESS, r\<lparr>isFound := False, mutex := None\<rparr>, Suc s)),
      op_lookupMasterIndexSampledName =
        (\<lambda>s name t. (UDS_SUCCESS, t\<lparr>inSampledChapter := True\<rparr>)),
      op_startSavingMasterIndex =
        (\<lambda>s z bw. case write_to_buffered_writer bw [tag] of (r, bw') \<Rightarrow> (r, bw', s)),
      op_isSavingMasterIndexDone = (\<lambda>s z. True),
      op_finishSavingMasterIndex = (\<lambda>s z. (code, s)),
      op_abortSavingMasterIndex = (\<lambda>s z. (code, s)),
      op_startRestoringMasterIndex = (\<lambda>s brs n. (UDS_SUCCESS, brs, s)),
      op_setMasterIndexTag = (\<lambda>s t. s)\<rparr>"

definition example_master_index6 :: "nat master_index6" where
  "example_master_index6 =
     \<lparr>sparseSampleRate = 2, numZones = 1,
      miNonHook = example_sub_index 0x64 (UDS_OTHER 5),
      miHook = example_sub_index 0x73 UDS_SUCCESS,
      masterZones = [\<lparr>hookMutex = Unlocked\<rparr>],
      history = []\<rparr>"

text \<open>A sampling projection for the examples: the last two bytes of a 16-byte name.\<close>

definition example_sampling_bytes :: "uds_chunk_name \<Rightarrow> 32 word" where
  "example_sampling_bytes name = push_bit 8 (ucast (name ! 14)) + ucast (name ! 15)"

definition example_sample_name :: uds_chunk_name where
  "example_sample_name = [0, 0, 0, 0, 0, 0, 0, 0, 0, 0, 0, 0, 0, 0, 0, 4]"

definition example_other_name :: uds_chunk_name where
  "example_other_name = [0, 0, 0, 0, 0, 0, 0, 0, 0, 0, 0, 0, 0, 0, 0, 5]"

definition example_record :: master_index_record where
  "example_record = \<lparr>isFound = True, isCollision = False, recordChapter = 7, mutex = None\<rparr>"

definition example_triage :: master_index_triage where
  "example_triage =
     \<lparr>virtualChapter = 0, zone = 9, isSample = False, inSampledChapter = True\<rparr>"

definition example_writer :: buffered_writer where
  "example_writer = \<lparr>bw_written = [], bw_error = UDS_SUCCESS\<rparr>"

text \<open>Saved headers: the magic and the rates 2, 3 and 0, each followed by one more byte.\<close>

definition example_reader :: "byte \<Rightarrow> buffered_reader" where
  "example_reader rate = \<lparr>br_remaining = MAGIC_MI_START @ [rate, 0, 0, 0, 0xFF]\<rparr>"


text \<open>An environment in which every allocation succeeds, and a save size for a sub-index.\<close>

definition example_environment :: "nat environment" where
  "example_environment =
     \<lparr>allocate_master_index6 = UDS_SUCCESS, allocate_masterZones = UDS_SUCCESS,
      initMutex = (\<lambda>z. UDS_SUCCESS),
      make_master_index005 = (\<lambda>m config n nonce. (UDS_SUCCESS, example_sub_index 0 UDS_SUCCESS))\<rparr>"

definition example_save_bytes005 :: "memory \<Rightarrow> ref \<Rightarrow> uds_result \<times> 64 word" where
  "example_save_bytes005 m config =
     (case load_configuration m config of
        Inl e \<Rightarrow> (UDS_INVALID_ARGUMENT, 0)
      | Inr c \<Rightarrow> (case load_geometry m (geometry c) of
           Inl e \<Rightarrow> (UDS_INVALID_ARGUMENT, 0)
         | Inr g \<Rightarrow> (UDS_SUCCESS, 16 + 4 * ucast (records_per_chapter g))))"

text \<open>The example composite after a record of the sampled name has been looked up.\<close>

definition example_after_getRecord :: "nat master_index6" where
  "example_after_getRecord =
     \<lparr>sparseSampleRate = 2, numZones = 1,
      miNonHook = example_sub_index 0x64 (UDS_OTHER 5),
      miHook = (example_sub_index 0x73 UDS_SUCCESS)\<lparr>impl := 1\<rparr>,
      masterZones = [\<lparr>hookMutex = Unlocked\<rparr>],
      history = [Call Hook GetMasterIndexZone, LockMutex 0,
                 Call Hook GetMasterIndexRecord, UnlockMutex 0]\<rparr>"




section \<open>Arithmetic of the widened words\<close>

lemma ucast_down_sub:
  fixes x y :: "64 word"
  shows "(ucast (x - y) :: 32 word) = ucast x - ucast y"
proof -
  have "take_bit 32 (take_bit 64 a - take_bit 64 b) = take_bit 32 (a - b)" for a b :: int
  proof -
    have "take_bit 32 (take_bit 64 a - take_bit 64 b)
            = take_bit 32 (take_bit 32 (take_bit 64 a) - take_bit 32 (take_bit 64 b))"
      by (simp only: take_bit_diff)
    also have "\<dots> = take_bit 32 (take_bit 32 a - take_bit 32 b)"
      by simp
    also have "\<dots> = take_bit 32 (a - b)"
      by (simp only: take_bit_diff)
    finally show ?thesis .
  qed
  then show ?thesis
    by transfer simp
qed


lemma ucast_ucast_32_64:
  fixes a :: "32 word"
  shows "(ucast (ucast a :: 64 word) :: 32 word) = a"
  by (simp add: ucast_down_ucast_id is_down)

lemma ucast_eq_0_32_64: "(ucast (a :: 32 word) :: 64 word) = 0 \<longleftrightarrow> a = 0"
  by (metis ucast_ucast_32_64 ucast_0)



section \<open>Splitting a configuration\<close>

lemmas memory_defs =
  load_configuration_def load_geometry_def store_configuration_def store_geometry_def

lemma copy_base_Caller:
  assumes "configurations m (Caller i) = Some c"
    and "geometry c = Caller j"
    and "geometries m (Caller j) = Some g"
    and "sc \<noteq> Caller i" and "sg \<noteq> Caller j"
  shows "copy_base m (Caller i) sc sg =
     Inr (m\<lparr>configurations := (configurations m)(sc \<mapsto> c\<lparr>geometry := sg\<rparr>),
            geometries := (geometries m)(sg \<mapsto> g)\<rparr>)"
  using assms
  by (simp add: copy_base_def bindF_def memory_defs Let_def)

lemma splitConfiguration006_Caller:
  assumes "configurations m (Caller i) = Some c"
    and "geometry c = Caller j" and "geometries m (Caller j) = Some g"
    and "sparse_sample_rate c \<noteq> 0"
    and "sparse_chapters_per_volume g \<noteq> 0"
  shows "splitConfiguration006 m (Caller i) =
     Inr (UDS_SUCCESS,
          m\<lparr>configurations := (configurations m)
               (Split_hookConfig \<mapsto> c\<lparr>geometry := Split_hookGeometry\<rparr>,
                Split_nonHookConfig \<mapsto> c\<lparr>geometry := Split_nonHookGeometry\<rparr>),
             geometries := (geometries m)
               (Split_hookGeometry \<mapsto>
                  g\<lparr>records_per_chapter :=
                       ucast ((ucast (records_per_chapter g) :: 64 word)
                              div ucast (sparse_sample_rate c)),
                    sparse_chapters_per_volume := 0\<rparr>,
                Split_nonHookGeometry \<mapsto>
                  g\<lparr>records_per_chapter :=
                       records_per_chapter g
                       - ucast ((ucast (records_per_chapter g) :: 64 word)
                                div ucast (sparse_sample_rate c)),
                    sparse_chapters_per_volume := 0,
                    chapters_per_volume :=
                      chapters_per_volume g - sparse_chapters_per_volume g\<rparr>)\<rparr>)"
  using assms
  apply (simp add: splitConfiguration006_def ASSERT_WITH_ERROR_CODE_def copy_base_Caller
              bindF_def load_configuration_def load_geometry_def)
  apply (simp add: adjust_split_def bindF_def memory_defs Let_def ucast_eq_0_32_64
              ucast_down_sub ucast_ucast_32_64)
  done




lemma splitConfiguration006_invalid:
  assumes "configurations m config = Some c"
    and "geometries m (geometry c) = Some g"
    and "sparse_sample_rate c = 0 \<or> sparse_chapters_per_volume g = 0"
  shows "splitConfiguration006 m config = Inr (UDS_INVALID_ARGUMENT, m)"
  using assms
  by (auto simp add: splitConfiguration006_def ASSERT_WITH_ERROR_CODE_def bindF_def
        load_configuration_def load_geometry_def)

text \<open>
  C8. For every configuration whose sparse sample rate is 0 or whose number of sparse
  chapters is 0, splitting fails with \<open>UDS_INVALID_ARGUMENT\<close> and leaves memory as it
  was; construction and the computation of the save size, which split first, fail with the
  same code: construction returns no composite and has acquired nothing, and the save size
  is not written.
\<close>

theorem split_rejects_zero:
  assumes "configurations m config = Some c"
    and "geometries m (geometry c) = Some g"
    and "sparse_sample_rate c = 0 \<or> sparse_chapters_per_volume g = 0"
  shows "splitConfiguration006 m config = Inr (UDS_INVALID_ARGUMENT, m)
       \<and> makeMasterIndex006 env m config n volumeNonce = Inr (UDS_INVALID_ARGUMENT, None, m, [])
       \<and> computeMasterIndexSaveBytes006 compute005 m config numBytes
           = Inr (UDS_INVALID_ARGUMENT, numBytes, m)"
  using splitConfiguration006_invalid [OF assms]
  by (simp add: makeMasterIndex006_def computeMasterIndexSaveBytes006_def bindF_def)

theorem split_rejects_zero_witness:
  "splitConfiguration006 example_memory (Caller 2) = Inr (UDS_INVALID_ARGUMENT, example_memory)
   \<and> makeMasterIndex006 example_environment example_memory (Caller 2) 1 0
       = Inr (UDS_INVALID_ARGUMENT, None, example_memory, [])
   \<and> computeMasterIndexSaveBytes006 example_save_bytes005 example_memory (Caller 2) 0
       = Inr (UDS_INVALID_ARGUMENT, 0, example_memory)"
  using split_rejects_zero [of example_memory "Caller 2"
      "\<lparr>geometry = Caller 1, sparse_sample_rate = 0\<rparr>"
      "\<lparr>chapters_per_volume = 1000, sparse_chapters_per_volume = 100,
        records_per_chapter = 100\<rparr>" example_environment 1 0 example_save_bytes005 0]
  by (simp add: example_memory_def)

text \<open>
  C9. For every nonzero sample rate and every name, \<open>isMasterIndexSample_006\<close> returns
  true exactly when the sampling projection of the name, modulo the rate, is zero; and the
  answer depends on the composite through its rate only.
\<close>

theorem isMasterIndexSample_006_projection:
  assumes "sparseSampleRate mi6 \<noteq> 0"
  shows "isMasterIndexSample_006 extract_sampling_bytes mi6 name
           = Inr (unat (extract_sampling_bytes name) mod unat (sparseSampleRate mi6) = 0)
       \<and> (sparseSampleRate mi6' = sparseSampleRate mi6 \<longrightarrow>
            isMasterIndexSample_006 extract_sampling_bytes mi6' name
              = isMasterIndexSample_006 extract_sampling_bytes mi6 name)"
  using assms
  by (simp add: isMasterIndexSample_006_def unat_eq_zero [symmetric] unat_mod
           del: unat_eq_zero)

theorem isMasterIndexSample_006_projection_witness:
  "isMasterIndexSample_006 example_sampling_bytes example_master_index6 example_sample_name
     = Inr True
   \<and> isMasterIndexSample_006 example_sampling_bytes example_master_index6 example_other_name
     = Inr False
   \<and> isMasterIndexSample_006 example_sampling_bytes
       (example_master_index6\<lparr>history := [LockMutex 0]\<rparr>) example_sample_name
     = isMasterIndexSample_006 example_sampling_bytes example_master_index6 example_sample_name"
  using isMasterIndexSample_006_projection [of example_master_index6 example_sampling_bytes
          example_sample_name "example_master_index6\<lparr>history := [LockMutex 0]\<rparr>"]
        isMasterIndexSample_006_projection [of example_master_index6 example_sampling_bytes
          example_other_name example_master_index6]
  by (simp add: example_master_index6_def example_sampling_bytes_def example_sample_name_def
        example_other_name_def)

text \<open>
  C10. For every input, \<open>lookupMasterIndexSampledName_006\<close> fails with \<open>UDS_BAD_STATE\<close>
  and leaves the triage and the composite as they were.
\<close>

theorem lookupMasterIndexSampledName_006_unsupported:
  "lookupMasterIndexSampledName_006 mi6 name triage = (UDS_BAD_STATE, triage, mi6)"
  by (simp add: lookupMasterIndexSampledName_006_def ASSERT_WITH_ERROR_CODE_def)

section \<open>Locking and routing\<close>

lemmas example_defs =
  example_master_index6_def example_sub_index_def example_sampling_bytes_def
  example_sample_name_def example_other_name_def example_record_def example_triage_def

lemmas dispatch_defs =
  getMasterIndexZone_def getMasterIndexRecord_def lookupMasterIndexSampledName_def
  startSavingMasterIndex_def isSavingMasterIndexDone_def finishSavingMasterIndex_def
  abortSavingMasterIndex_def startRestoringMasterIndex_def setMasterIndexTag_def

lemma restore_unlocked:
  assumes "z < length zs" and "hookMutex (zs ! z) = Unlocked"
  shows "zs[z := \<lparr>hookMutex = Unlocked\<rparr>] = zs"
proof -
  have "zs ! z = \<lparr>hookMutex = Unlocked\<rparr>"
    using assms(2) by (cases "zs ! z") simp
  then show ?thesis
    by (metis list_update_id)
qed

text \<open>
  C1, as amended. For every name classified as a sample, with the owning zone \<open>z\<close> of the
  hook index inside the zone array and its mutex free, \<open>getMasterIndexRecord_006\<close> asks
  the hook index for the zone, locks the mutex of that zone, looks the record up in the
  hook index, unlocks the mutex, and stores a reference to the mutex in the record it
  returns: the zone array is returned as it was, so the mutex is not held when the call
  returns. For every name that is not a sample it hands the lookup to the non-hook index,
  takes no lock, and returns the record as the non-hook index left it.
\<close>

theorem getMasterIndexRecord_006_locking:
  assumes rate: "sparseSampleRate mi6 \<noteq> 0"
    and z: "z = unat (getMasterIndexZone (miHook mi6) name)"
    and hook: "getMasterIndexRecord (miHook mi6) name record = (hookResult, hookRecord, hook')"
    and nonHook:
      "getMasterIndexRecord (miNonHook mi6) name record = (nonHookResult, nonHookRecord, nonHook')"
  shows "(extract_sampling_bytes name mod sparseSampleRate mi6 = 0 \<longrightarrow>
            z < length (masterZones mi6) \<longrightarrow> hookMutex (masterZones mi6 ! z) = Unlocked \<longrightarrow>
            (\<exists>mi6'.
               getMasterIndexRecord_006 extract_sampling_bytes mi6 name record =
                 Inr (hookResult, hookRecord\<lparr>mutex := Some z\<rparr>, mi6')
               \<and> mi6' = mi6\<lparr>miHook := hook',
                            history := history mi6 @
                              [Call Hook GetMasterIndexZone, LockMutex z,
                               Call Hook GetMasterIndexRecord, UnlockMutex z]\<rparr>
               \<and> hookMutex (masterZones mi6' ! z) = Unlocked))
       \<and> (extract_sampling_bytes name mod sparseSampleRate mi6 \<noteq> 0 \<longrightarrow>
            getMasterIndexRecord_006 extract_sampling_bytes mi6 name record =
              Inr (nonHookResult, nonHookRecord,
                   mi6\<lparr>miNonHook := nonHook',
                       history := history mi6 @ [Call NonHook GetMasterIndexRecord]\<rparr>))"
  using assms
  by (simp add: getMasterIndexRecord_006_def isMasterIndexSample_006_def bindF_def Let_def
        lockMutex_def unlockMutex_def log_event_def restore_unlocked)

theorem getMasterIndexRecord_006_locking_witness:
  "getMasterIndexRecord_006 example_sampling_bytes example_master_index6
       example_sample_name example_record
     = Inr (UDS_SUCCESS, example_record\<lparr>isFound := False, mutex := Some 0\<rparr>,
            example_master_index6
              \<lparr>miHook := (example_sub_index 0x73 UDS_SUCCESS)\<lparr>impl := 1\<rparr>,
               history := [Call Hook GetMasterIndexZone, LockMutex 0,
                           Call Hook GetMasterIndexRecord, UnlockMutex 0]\<rparr>)
   \<and> getMasterIndexRecord_006 example_sampling_bytes example_master_index6
       example_other_name example_record
     = Inr (UDS_SUCCESS, example_record\<lparr>isFound := False\<rparr>,
            example_master_index6
              \<lparr>miNonHook := (example_sub_index 0x64 (UDS_OTHER 5))\<lparr>impl := 1\<rparr>,
               history := [Call NonHook GetMasterIndexRecord]\<rparr>)"
proof -
  have rate: "sparseSampleRate example_master_index6 \<noteq> 0"
    by (simp add: example_master_index6_def)
  have zone: "0 = unat (getMasterIndexZone (miHook example_master_index6) n)" for n
    by (simp add: example_defs dispatch_defs)
  have hook: "getMasterIndexRecord (miHook example_master_index6) n example_record
      = (UDS_SUCCESS, example_record\<lparr>isFound := False\<rparr>,
         (example_sub_index 0x73 UDS_SUCCESS)\<lparr>impl := 1\<rparr>)" for n
    by (simp add: example_defs dispatch_defs)
  have nonHook: "getMasterIndexRecord (miNonHook example_master_index6) n example_record
      = (UDS_SUCCESS, example_record\<lparr>isFound := False\<rparr>,
         (example_sub_index 0x64 (UDS_OTHER 5))\<lparr>impl := 1\<rparr>)" for n
    by (simp add: example_defs dispatch_defs)
  show ?thesis
    using getMasterIndexRecord_006_locking [OF rate zone [of example_sample_name]
            hook [of example_sample_name] nonHook [of example_sample_name],
            where extract_sampling_bytes = example_sampling_bytes]
          getMasterIndexRecord_006_locking [OF rate zone [of example_other_name]
            hook [of example_other_name] nonHook [of example_other_name],
            where extract_sampling_bytes = example_sampling_bytes]
    by (simp add: example_master_index6_def example_sampling_bytes_def
          example_sample_name_def example_other_name_def example_record_def)
qed

text \<open>
  The spec says the mutex is still held when the call returns. On the example
  composite, whose rate is 2, the name whose sampling bytes are 4 is a sample; the call
  returns a record that refers to the mutex of zone 0, and that mutex is unlocked.
\<close>

theorem getMasterIndexRecord_006_releases_mutex:
  "isMasterIndexSample_006 example_sampling_bytes example_master_index6 example_sample_name
     = Inr True
   \<and> getMasterIndexRecord_006 example_sampling_bytes example_master_index6
         example_sample_name example_record
     = Inr (UDS_SUCCESS, example_record\<lparr>isFound := False, mutex := Some 0\<rparr>,
            example_after_getRecord)
   \<and> hookMutex (masterZones example_after_getRecord ! 0) = Unlocked
   \<and> hookMutex (masterZones example_after_getRecord ! 0) \<noteq> Locked"
  by (simp add: getMasterIndexRecord_006_def isMasterIndexSample_006_def bindF_def Let_def
        lockMutex_def unlockMutex_def log_event_def example_defs dispatch_defs
        example_after_getRecord_def)

text \<open>
  C5. For every name, \<open>lookupMasterIndexName_006\<close> computes the sample flag and the zone
  before any lock is taken and sets \<open>inSampledChapter\<close> to false. If the name is a sample
  (with its zone inside the zone array and the mutex free) it locks the mutex of the
  zone, asks the hook index with the triage so prepared, unlocks the mutex and returns
  what the hook index answered. If the name is not a sample it returns success with no
  lock taken and no lookup in either sub-index: only the zone was asked of the non-hook
  index.
\<close>

theorem lookupMasterIndexName_006_triage:
  assumes rate: "sparseSampleRate mi6 \<noteq> 0"
    and z: "z = unat (getMasterIndexZone (miHook mi6) name)"
    and hook: "lookupMasterIndexSampledName (miHook mi6) name
                 (triage\<lparr>isSample := True, inSampledChapter := False,
                         zone := getMasterIndexZone (miHook mi6) name\<rparr>)
               = (hookResult, hookTriage)"
  shows "(extract_sampling_bytes name mod sparseSampleRate mi6 = 0 \<longrightarrow>
            z < length (masterZones mi6) \<longrightarrow> hookMutex (masterZones mi6 ! z) = Unlocked \<longrightarrow>
            lookupMasterIndexName_006 extract_sampling_bytes mi6 name triage =
              Inr (hookResult, hookTriage,
                   mi6\<lparr>history := history mi6 @
                         [Call Hook GetMasterIndexZone, LockMutex z,
                          Call Hook LookupMasterIndexSampledName, UnlockMutex z]\<rparr>))
       \<and> (extract_sampling_bytes name mod sparseSampleRate mi6 \<noteq> 0 \<longrightarrow>
            lookupMasterIndexName_006 extract_sampling_bytes mi6 name triage =
              Inr (UDS_SUCCESS,
                   triage\<lparr>isSample := False, inSampledChapter := False,
                          zone := getMasterIndexZone (miNonHook mi6) name\<rparr>,
                   mi6\<lparr>history := history mi6 @ [Call NonHook GetMasterIndexZone]\<rparr>))"
  using assms
  by (simp add: lookupMasterIndexName_006_def getMasterIndexZone_006_def getSubIndex_def
        the_sub_index_def isMasterIndexSample_006_def bindF_def Let_def
        lockMutex_def unlockMutex_def log_event_def restore_unlocked)

theorem lookupMasterIndexName_006_triage_witness:
  "lookupMasterIndexName_006 example_sampling_bytes example_master_index6
       example_sample_name example_triage
     = Inr (UDS_SUCCESS,
            \<lparr>virtualChapter = 0, zone = 0, isSample = True, inSampledChapter = True\<rparr>,
            example_master_index6
              \<lparr>history := [Call Hook GetMasterIndexZone, LockMutex 0,
                           Call Hook LookupMasterIndexSampledName, UnlockMutex 0]\<rparr>)
   \<and> lookupMasterIndexName_006 example_sampling_bytes example_master_index6
       example_other_name example_triage
     = Inr (UDS_SUCCESS,
            \<lparr>virtualChapter = 0, zone = 0, isSample = False, inSampledChapter = False\<rparr>,
            example_master_index6\<lparr>history := [Call NonHook GetMasterIndexZone]\<rparr>)"
proof -
  have rate: "sparseSampleRate example_master_index6 \<noteq> 0"
    by (simp add: example_master_index6_def)
  have zone: "0 = unat (getMasterIndexZone (miHook example_master_index6) n)" for n
    by (simp add: example_defs dispatch_defs)
  have hook: "lookupMasterIndexSampledName (miHook example_master_index6) n
       (example_triage\<lparr>isSample := True, inSampledChapter := False,
          zone := getMasterIndexZone (miHook example_master_index6) n\<rparr>)
      = (UDS_SUCCESS,
         \<lparr>virtualChapter = 0, zone = 0, isSample = True, inSampledChapter = True\<rparr>)" for n
    by (simp add: example_defs dispatch_defs)
  show ?thesis
    using lookupMasterIndexName_006_triage [OF rate zone [of example_sample_name]
            hook [of example_sample_name],
            where extract_sampling_bytes = example_sampling_bytes]
          lookupMasterIndexName_006_triage [OF rate zone [of example_other_name]
            hook [of example_other_name],
            where extract_sampling_bytes = example_sampling_bytes]
    by (simp add: example_defs dispatch_defs)
qed


section \<open>Saving\<close>

text \<open>
  C7. \<open>isSavingMasterIndexDone_006\<close> is true exactly when both sub-indices report their
  save done. \<open>finishSavingMasterIndex_006\<close> finishes the non-hook index first; if that
  fails it returns its error and the hook index is not called, otherwise it finishes the
  hook index and returns its result. \<open>abortSavingMasterIndex_006\<close> aborts both,
  whatever the first returns, and returns the error of the non-hook index if it failed,
  otherwise the result of the hook index.
\<close>

theorem saving_lifecycle:
  assumes finishDense: "finishSavingMasterIndex (miNonHook mi6) z = (r1, nonHook1)"
    and finishSparse: "finishSavingMasterIndex (miHook mi6) z = (r2, hook1)"
    and abortDense: "abortSavingMasterIndex (miNonHook mi6) z = (a1, nonHook2)"
    and abortSparse: "abortSavingMasterIndex (miHook mi6) z = (a2, hook2)"
  shows "fst (isSavingMasterIndexDone_006 mi6 z)
           = (isSavingMasterIndexDone (miNonHook mi6) z \<and> isSavingMasterIndexDone (miHook mi6) z)
       \<and> (r1 \<noteq> UDS_SUCCESS \<longrightarrow>
            finishSavingMasterIndex_006 mi6 z =
              (r1, mi6\<lparr>miNonHook := nonHook1,
                       history := history mi6 @ [Call NonHook FinishSavingMasterIndex]\<rparr>))
       \<and> (r1 = UDS_SUCCESS \<longrightarrow>
            finishSavingMasterIndex_006 mi6 z =
              (r2, mi6\<lparr>miNonHook := nonHook1, miHook := hook1,
                       history := history mi6 @ [Call NonHook FinishSavingMasterIndex,
                                                 Call Hook FinishSavingMasterIndex]\<rparr>))
       \<and> abortSavingMasterIndex_006 mi6 z =
            (if a1 \<noteq> UDS_SUCCESS then a1 else a2,
             mi6\<lparr>miNonHook := nonHook2, miHook := hook2,
                 history := history mi6 @ [Call NonHook AbortSavingMasterIndex,
                                           Call Hook AbortSavingMasterIndex]\<rparr>)"
  using assms
  by (simp add: isSavingMasterIndexDone_006_def finishSavingMasterIndex_006_def
        abortSavingMasterIndex_006_def log_event_def Let_def)

theorem saving_lifecycle_witness:
  "fst (isSavingMasterIndexDone_006 example_master_index6 0) = True
   \<and> finishSavingMasterIndex_006 example_master_index6 0 =
       (UDS_OTHER 5,
        example_master_index6\<lparr>history := [Call NonHook FinishSavingMasterIndex]\<rparr>)
   \<and> finishSavingMasterIndex_006
         (example_master_index6\<lparr>miNonHook := example_sub_index 0x64 UDS_SUCCESS,
                                 miHook := example_sub_index 0x73 (UDS_OTHER 6)\<rparr>) 0 =
       (UDS_OTHER 6,
        example_master_index6\<lparr>miNonHook := example_sub_index 0x64 UDS_SUCCESS,
                                miHook := example_sub_index 0x73 (UDS_OTHER 6),
                                history := [Call NonHook FinishSavingMasterIndex,
                                            Call Hook FinishSavingMasterIndex]\<rparr>)
   \<and> abortSavingMasterIndex_006 example_master_index6 0 =
       (UDS_OTHER 5,
        example_master_index6\<lparr>history := [Call NonHook AbortSavingMasterIndex,
                                            Call Hook AbortSavingMasterIndex]\<rparr>)
   \<and> abortSavingMasterIndex_006
         (example_master_index6\<lparr>miNonHook := example_sub_index 0x64 UDS_SUCCESS,
                                 miHook := example_sub_index 0x73 (UDS_OTHER 6)\<rparr>) 0 =
       (UDS_OTHER 6,
        example_master_index6\<lparr>miNonHook := example_sub_index 0x64 UDS_SUCCESS,
                                miHook := example_sub_index 0x73 (UDS_OTHER 6),
                                history := [Call NonHook AbortSavingMasterIndex,
                                            Call Hook AbortSavingMasterIndex]\<rparr>)"
  using saving_lifecycle [of example_master_index6 0 "UDS_OTHER 5"
          "example_sub_index 0x64 (UDS_OTHER 5)" UDS_SUCCESS "example_sub_index 0x73 UDS_SUCCESS"
          "UDS_OTHER 5" "example_sub_index 0x64 (UDS_OTHER 5)" UDS_SUCCESS
          "example_sub_index 0x73 UDS_SUCCESS"]
        saving_lifecycle [of
          "example_master_index6\<lparr>miNonHook := example_sub_index 0x64 UDS_SUCCESS,
                                  miHook := example_sub_index 0x73 (UDS_OTHER 6)\<rparr>" 0
          UDS_SUCCESS "example_sub_index 0x64 UDS_SUCCESS"
          "UDS_OTHER 6" "example_sub_index 0x73 (UDS_OTHER 6)"
          UDS_SUCCESS "example_sub_index 0x64 UDS_SUCCESS"
          "UDS_OTHER 6" "example_sub_index 0x73 (UDS_OTHER 6)"]
  by (simp add: example_defs dispatch_defs)

lemma magic_is_ascii: "MAGIC_MI_START = map of_char ''MI6-0001''"
  by (simp add: MAGIC_MI_START_def)

lemma nat_as_four_bytes:
  fixes n :: nat
  assumes "n < 4294967296"
  shows "n = n mod 256 + 256 * (n div 256 mod 256) + 65536 * (n div 65536 mod 256)
             + 16777216 * (n div 16777216 mod 256)"
proof -
  define a where "a = n div 256"
  define b where "b = a div 256"
  define c where "c = b div 256"
  have n: "n = n mod 256 + 256 * a"
    by (simp add: a_def)
  have a: "a = a mod 256 + 256 * b"
    by (simp add: b_def)
  have b: "b = b mod 256 + 256 * c"
    by (simp add: c_def)
  have b': "n div 65536 = b"
    using div_mult2_eq [of n 256 256] by (simp add: a_def b_def)
  have c': "n div 16777216 = c"
    using div_mult2_eq [of n 65536 256] by (simp add: b' c_def)
  have "c < 256"
    using assms unfolding c' [symmetric] by simp
  then have c: "c mod 256 = c"
    by simp
  have "n = n mod 256 + 256 * (a mod 256) + 65536 * (b mod 256) + 16777216 * c"
    using n a b by linarith
  then show ?thesis
    by (simp only: b' c' c a_def [symmetric])
qed

lemma unat_ucast_byte: "unat (ucast (w :: 32 word) :: 8 word) = unat w mod 256"
  by (simp add: unsigned_ucast_eq take_bit_eq_mod)

lemma unat_drop_bit_div: "unat (drop_bit k (v :: 32 word)) = unat v div 2 ^ k"
  by (simp only: unat_drop_bit_eq) (simp add: drop_bit_eq_div)

lemma uint32_le_value:
  "unat v = unat (uint32_le v ! 0) + 256 * unat (uint32_le v ! 1)
            + 65536 * unat (uint32_le v ! 2) + 16777216 * unat (uint32_le v ! 3)"
proof -
  have bound: "unat v < 4294967296"
    using unsigned_less [of v, where ?'a = nat] by simp
  then have "unat v div 16777216 < 256"
    by simp
  then have "unat v div 16777216 mod 256 = unat v div 16777216"
    by simp
  with nat_as_four_bytes [OF bound] show ?thesis
    by (simp add: uint32_le_def unat_ucast_byte unat_drop_bit_div del: drop_bit_eq_div)
qed

text \<open>
  C6. When the header buffer can be allocated, the writer has no error, and the two
  sub-indices start their saves with success, appending \<open>denseImage\<close> and then
  \<open>sparseImage\<close>, the stream written by \<open>startSavingMasterIndex_006\<close> is what was there,
  then the magic, then the sample rate, then the image of the non-hook (dense) index, then
  the image of the hook (sparse) index. The magic is the eight characters "MI6-0001", the
  rate is four bytes, least significant first, and the header is twelve bytes.
  \<open>computeMasterIndexSaveBytes006\<close> returns twelve plus the two save sizes of the
  sub-indices when the split and both computations succeed, and the error of the split,
  with the byte count not written, when the split fails.
\<close>

theorem saved_stream_layout:
  shows "(sizeof_mi006_data \<le> mem \<longrightarrow> bw_error bw = UDS_SUCCESS \<longrightarrow>
          startSavingMasterIndex (miNonHook mi6) zoneNumber
              (bw\<lparr>bw_written := bw_written bw @ MAGIC_MI_START
                                  @ uint32_le (sparseSampleRate mi6)\<rparr>)
            = (UDS_SUCCESS, bw2, nonHook') \<longrightarrow>
          bw_written bw2 = bw_written bw @ MAGIC_MI_START @ uint32_le (sparseSampleRate mi6)
                             @ denseImage \<longrightarrow>
          startSavingMasterIndex (miHook mi6) zoneNumber bw2 = (UDS_SUCCESS, bw3, hook') \<longrightarrow>
          bw_written bw3 = bw_written bw2 @ sparseImage \<longrightarrow>
            startSavingMasterIndex_006 mem mi6 zoneNumber bw =
              (UDS_SUCCESS, bw3,
               mi6\<lparr>miNonHook := nonHook', miHook := hook',
                   history := history mi6 @ [Call NonHook StartSavingMasterIndex,
                                             Call Hook StartSavingMasterIndex]\<rparr>)
          \<and> bw_written bw3 = bw_written bw @ MAGIC_MI_START
                @ uint32_le (sparseSampleRate mi6) @ denseImage @ sparseImage)
       \<and> MAGIC_MI_START = map of_char ''MI6-0001''
       \<and> length MAGIC_MI_START = 8
       \<and> length (uint32_le (sparseSampleRate mi6)) = 4
       \<and> unat (sparseSampleRate mi6)
           = unat (uint32_le (sparseSampleRate mi6) ! 0)
             + 256 * unat (uint32_le (sparseSampleRate mi6) ! 1)
             + 65536 * unat (uint32_le (sparseSampleRate mi6) ! 2)
             + 16777216 * unat (uint32_le (sparseSampleRate mi6) ! 3)
       \<and> length (MAGIC_MI_START @ uint32_le (sparseSampleRate mi6)) = 12
       \<and> (splitConfiguration006 m config = Inr (UDS_SUCCESS, m1) \<longrightarrow>
            compute005 m1 Split_nonHookConfig = (UDS_SUCCESS, denseBytes) \<longrightarrow>
            compute005 m1 Split_hookConfig = (UDS_SUCCESS, sparseBytes) \<longrightarrow>
              computeMasterIndexSaveBytes006 compute005 m config numBytes
                = Inr (UDS_SUCCESS, 12 + denseBytes + sparseBytes, m1))
       \<and> (splitConfiguration006 m config = Inr (result, m1) \<longrightarrow> result \<noteq> UDS_SUCCESS \<longrightarrow>
              computeMasterIndexSaveBytes006 compute005 m config numBytes
                = Inr (result, numBytes, m1))"
proof -
  have header: "encodeMasterIndexHeader
          \<lparr>b_start = 0, b_end = 0, b_length = 12, b_data = replicate 12 0\<rparr> h
        = (UDS_SUCCESS,
           \<lparr>b_start = 0, b_end = 12, b_length = 12,
            b_data = MAGIC_MI_START @ uint32_le (data_sparseSampleRate h)\<rparr>)" for h
    by (simp add: encodeMasterIndexHeader_def put_bytes_def put_uint32_le_into_buffer_def
          MAGIC_SIZE_def MAGIC_MI_START_def uint32_le_def ASSERT_LOG_ONLY_def
          content_length_def sizeof_mi006_data_def)
  have save: "startSavingMasterIndex_006 mem mi6 zoneNumber bw =
              (UDS_SUCCESS, bw3,
               mi6\<lparr>miNonHook := nonHook', miHook := hook',
                   history := history mi6 @ [Call NonHook StartSavingMasterIndex,
                                             Call Hook StartSavingMasterIndex]\<rparr>)"
    if "sizeof_mi006_data \<le> mem" "bw_error bw = UDS_SUCCESS"
      "startSavingMasterIndex (miNonHook mi6) zoneNumber
              (bw\<lparr>bw_written := bw_written bw @ MAGIC_MI_START
                                  @ uint32_le (sparseSampleRate mi6)\<rparr>)
            = (UDS_SUCCESS, bw2, nonHook')"
      "startSavingMasterIndex (miHook mi6) zoneNumber bw2 = (UDS_SUCCESS, bw3, hook')"
    using that
    by (simp add: startSavingMasterIndex_006_def make_buffer_def sizeof_mi006_data_def header
          write_to_buffered_writer_def content_length_def get_buffer_contents_def
          log_event_def Let_def MAGIC_MI_START_def uint32_le_def)
  have compute: "computeMasterIndexSaveBytes006 compute005 m config numBytes
                = Inr (UDS_SUCCESS, 12 + denseBytes + sparseBytes, m1)"
    if "splitConfiguration006 m config = Inr (UDS_SUCCESS, m1)"
      "compute005 m1 Split_nonHookConfig = (UDS_SUCCESS, denseBytes)"
      "compute005 m1 Split_hookConfig = (UDS_SUCCESS, sparseBytes)"
    using that
    by (simp add: computeMasterIndexSaveBytes006_def bindF_def sizeof_mi006_data_def)
  have failing: "computeMasterIndexSaveBytes006 compute005 m config numBytes
                = Inr (result, numBytes, m1)"
    if "splitConfiguration006 m config = Inr (result, m1)" "result \<noteq> UDS_SUCCESS"
    using that by (simp add: computeMasterIndexSaveBytes006_def bindF_def)
  show ?thesis
    using save compute failing uint32_le_value [of "sparseSampleRate mi6"]
    by (simp add: magic_is_ascii [symmetric])
       (simp add: MAGIC_MI_START_def uint32_le_def)
qed

theorem saved_stream_layout_witness:
  "startSavingMasterIndex_006 12 example_master_index6 0 example_writer =
     (UDS_SUCCESS,
      \<lparr>bw_written = MAGIC_MI_START @ [2, 0, 0, 0] @ [0x64] @ [0x73], bw_error = UDS_SUCCESS\<rparr>,
      example_master_index6\<lparr>history := [Call NonHook StartSavingMasterIndex,
                                          Call Hook StartSavingMasterIndex]\<rparr>)
   \<and> (\<exists>m1. splitConfiguration006 example_memory (Caller 0) = Inr (UDS_SUCCESS, m1)
          \<and> computeMasterIndexSaveBytes006 example_save_bytes005 example_memory (Caller 0) 0
              = Inr (UDS_SUCCESS, 444, m1))
   \<and> computeMasterIndexSaveBytes006 example_save_bytes005 example_memory (Caller 2) 7
       = Inr (UDS_INVALID_ARGUMENT, 7, example_memory)"
proof -
  let ?c = "\<lparr>geometry = Caller 1, sparse_sample_rate = 10\<rparr>"
  let ?g = "\<lparr>chapters_per_volume = 1000, sparse_chapters_per_volume = 100,
             records_per_chapter = 100\<rparr>"
  let ?w1 = "\<lparr>bw_written = MAGIC_MI_START @ [2, 0, 0, 0] @ [0x64], bw_error = UDS_SUCCESS\<rparr>"
  let ?w2 = "\<lparr>bw_written = MAGIC_MI_START @ [2, 0, 0, 0] @ [0x64] @ [0x73],
              bw_error = UDS_SUCCESS\<rparr>"
  obtain m1 where split: "splitConfiguration006 example_memory (Caller 0) = Inr (UDS_SUCCESS, m1)"
    and hookConfig: "configurations m1 Split_hookConfig = Some (?c\<lparr>geometry := Split_hookGeometry\<rparr>)"
    and nonHookConfig:
      "configurations m1 Split_nonHookConfig = Some (?c\<lparr>geometry := Split_nonHookGeometry\<rparr>)"
    and hookGeometry: "geometries m1 Split_hookGeometry
        = Some (?g\<lparr>records_per_chapter := 10, sparse_chapters_per_volume := 0\<rparr>)"
    and nonHookGeometry: "geometries m1 Split_nonHookGeometry
        = Some (?g\<lparr>records_per_chapter := 90, sparse_chapters_per_volume := 0,
                   chapters_per_volume := 900\<rparr>)"
    using splitConfiguration006_Caller [of example_memory 0 ?c 1 ?g]
    by (simp add: example_memory_def)
  have dense: "example_save_bytes005 m1 Split_nonHookConfig = (UDS_SUCCESS, 376)"
    using nonHookConfig nonHookGeometry
    by (simp add: example_save_bytes005_def load_configuration_def load_geometry_def)
  have sparse: "example_save_bytes005 m1 Split_hookConfig = (UDS_SUCCESS, 56)"
    using hookConfig hookGeometry
    by (simp add: example_save_bytes005_def load_configuration_def load_geometry_def)
  have bad: "splitConfiguration006 example_memory (Caller 2)
               = Inr (UDS_INVALID_ARGUMENT, example_memory)"
    by (simp add: splitConfiguration006_def ASSERT_WITH_ERROR_CODE_def bindF_def
          load_configuration_def load_geometry_def example_memory_def)
  have size: "computeMasterIndexSaveBytes006 example_save_bytes005 example_memory (Caller 0) 0
              = Inr (UDS_SUCCESS, 444, m1)"
    using saved_stream_layout [where m = example_memory and config = "Caller 0" and ?m1.0 = m1
            and ?compute005.0 = example_save_bytes005 and denseBytes = 376 and sparseBytes = 56
            and numBytes = 0 and ?mi6.0 = example_master_index6]
          split dense sparse
    by simp
  have fails: "computeMasterIndexSaveBytes006 example_save_bytes005 example_memory (Caller 2) 7
       = Inr (UDS_INVALID_ARGUMENT, 7, example_memory)"
    using saved_stream_layout [where m = example_memory and config = "Caller 2"
            and ?m1.0 = example_memory and ?compute005.0 = example_save_bytes005
            and result = UDS_INVALID_ARGUMENT and numBytes = 7
            and ?mi6.0 = example_master_index6]
          bad
    by simp
  have stream: "startSavingMasterIndex_006 12 example_master_index6 0 example_writer =
     (UDS_SUCCESS, ?w2,
      example_master_index6\<lparr>history := [Call NonHook StartSavingMasterIndex,
                                          Call Hook StartSavingMasterIndex]\<rparr>)"
    using saved_stream_layout [where mem = 12 and bw = example_writer
            and ?mi6.0 = example_master_index6 and zoneNumber = 0 and ?bw2.0 = ?w1
            and nonHook' = "example_sub_index 0x64 (UDS_OTHER 5)" and denseImage = "[0x64]"
            and ?bw3.0 = ?w2 and hook' = "example_sub_index 0x73 UDS_SUCCESS"
            and sparseImage = "[0x73]"]
    by (simp add: example_defs dispatch_defs example_writer_def sizeof_mi006_data_def
          write_to_buffered_writer_def uint32_le_def)
  show ?thesis
    using stream size fails split by blast
qed

section \<open>Restoring\<close>

lemma decode_twelve_bytes:
  assumes "length bytes = 12"
  shows "decodeMasterIndexHeader
           \<lparr>b_start = 0, b_end = 12, b_length = 12, b_data = bytes\<rparr> h
         = (UDS_SUCCESS,
            \<lparr>b_start = 12, b_end = 12, b_length = 12, b_data = bytes\<rparr>,
            \<lparr>magic = take 8 bytes, data_sparseSampleRate = uint32_from_le (take 4 (drop 8 bytes))\<rparr>)"
  using assms
  by (simp add: decodeMasterIndexHeader_def get_bytes_from_buffer_def
        get_uint32_le_from_buffer_def content_length_def get_buffer_contents_def
        MAGIC_SIZE_def ASSERT_LOG_ONLY_def Let_def)

lemma restore_headers_step:
  assumes "int i < numReaders" and "i < length readers" and "12 \<le> mem"
    and "12 \<le> length (br_remaining (readers ! i))"
  shows "restore_headers mem mi6 readers numReaders i =
    (if header_magic (readers ! i) \<noteq> MAGIC_MI_START
     then Inr (Some UDS_CORRUPT_COMPONENT, mi6, readers[i := skip_header (readers ! i)])
     else if i = 0
     then restore_headers mem (mi6\<lparr>sparseSampleRate := header_rate (readers ! i)\<rparr>)
            (readers[i := skip_header (readers ! i)]) numReaders (Suc i)
     else if sparseSampleRate mi6 \<noteq> header_rate (readers ! i)
     then Inr (Some UDS_CORRUPT_COMPONENT, mi6, readers[i := skip_header (readers ! i)])
     else restore_headers mem mi6 (readers[i := skip_header (readers ! i)]) numReaders (Suc i))"
proof -
  have len: "length (take 12 (br_remaining (readers ! i))) = 12"
    using assms(4) by simp
  have magic: "length MAGIC_MI_START = 8"
    by (simp add: MAGIC_MI_START_def)
  show ?thesis
    using assms
    apply (subst restore_headers.simps)
    apply (simp add: make_buffer_def sizeof_mi006_data_def buffer_length_def
             read_from_buffered_reader_def read_into_buffer_def reset_buffer_end_def
             decode_twelve_bytes [OF len] logWarningWithStringError_def Let_def
             header_magic_def header_rate_def skip_header_def MAGIC_SIZE_def magic
             drop_take min_def)
    done
qed

lemma restore_headers_tail:
  assumes "12 \<le> mem" and "numReaders = int (length readers)"
    and "0 < i" and "i \<le> length readers"
    and "\<forall>br \<in> set (drop i readers). 12 \<le> length (br_remaining br)"
  shows "\<exists>readers'. restore_headers mem mi6 readers numReaders i =
           Inr (if headers_agree (sparseSampleRate mi6) (drop i readers)
                then None else Some UDS_CORRUPT_COMPONENT, mi6, readers')
         \<and> (headers_agree (sparseSampleRate mi6) (drop i readers) \<longrightarrow>
              readers' = take i readers @ map skip_header (drop i readers))"
  using assms
proof (induction k \<equiv> "length readers - i" arbitrary: i readers)
  case 0
  then have "i = length readers"
    by simp
  with 0 show ?case
    by (subst restore_headers.simps) (simp add: headers_agree_def)
next
  case (Suc k)
  then have i: "i < length readers"
    by simp
  let ?br = "readers ! i"
  let ?readers1 = "readers[i := skip_header ?br]"
  have split: "drop i readers = ?br # drop (Suc i) readers"
    using i by (simp add: Cons_nth_drop_Suc)
  have bytes: "12 \<le> length (br_remaining ?br)"
    using Suc.prems(5) split by simp
  have step: "restore_headers mem mi6 readers numReaders i =
    (if header_magic ?br \<noteq> MAGIC_MI_START
     then Inr (Some UDS_CORRUPT_COMPONENT, mi6, ?readers1)
     else if sparseSampleRate mi6 \<noteq> header_rate ?br
     then Inr (Some UDS_CORRUPT_COMPONENT, mi6, ?readers1)
     else restore_headers mem mi6 ?readers1 numReaders (Suc i))"
    using restore_headers_step [of i numReaders readers mem mi6] i bytes Suc.prems
    by simp
  have rest: "drop (Suc i) ?readers1 = drop (Suc i) readers"
    by simp
  have front: "take (Suc i) ?readers1 = take i readers @ [skip_header ?br]"
    using i by (simp add: take_Suc_conv_app_nth)
  have agree: "headers_agree rate (drop i readers) \<longleftrightarrow>
      header_magic ?br = MAGIC_MI_START \<and> header_rate ?br = rate
      \<and> headers_agree rate (drop (Suc i) readers)" for rate
    by (simp add: split headers_agree_def)
  show ?case
  proof (cases "header_magic ?br = MAGIC_MI_START \<and> header_rate ?br = sparseSampleRate mi6")
    case False
    then show ?thesis
      by (auto simp add: step agree)
  next
    case True
    have "\<exists>readers'. restore_headers mem mi6 ?readers1 numReaders (Suc i) =
           Inr (if headers_agree (sparseSampleRate mi6) (drop (Suc i) ?readers1)
                then None else Some UDS_CORRUPT_COMPONENT, mi6, readers')
         \<and> (headers_agree (sparseSampleRate mi6) (drop (Suc i) ?readers1) \<longrightarrow>
              readers' = take (Suc i) ?readers1 @ map skip_header (drop (Suc i) ?readers1))"
    proof (rule Suc.hyps(1))
      show "k = length ?readers1 - Suc i"
        using Suc.hyps(2) by simp
      show "12 \<le> mem"
        by (rule Suc.prems(1))
      show "numReaders = int (length ?readers1)"
        using Suc.prems(2) by simp
      show "0 < Suc i"
        by simp
      show "Suc i \<le> length ?readers1"
        using i by simp
      show "\<forall>br \<in> set (drop (Suc i) ?readers1). 12 \<le> length (br_remaining br)"
        using Suc.prems(5) split by (simp only: rest) simp
    qed
    then show ?thesis
      using True by (simp only: rest front step agree) (simp add: split)
  qed
qed


lemma restore_headers_all:
  assumes mem: "12 \<le> mem" and n: "numReaders = int (length readers)"
    and bytes: "\<forall>br \<in> set readers. 12 \<le> length (br_remaining br)"
  shows "\<exists>readers'. restore_headers mem mi6 readers numReaders 0 =
           Inr (if headers_agree (header_rate (hd readers)) readers
                then None else Some UDS_CORRUPT_COMPONENT,
                if readers \<noteq> [] \<and> header_magic (hd readers) = MAGIC_MI_START
                then mi6\<lparr>sparseSampleRate := header_rate (hd readers)\<rparr> else mi6,
                readers')
         \<and> (headers_agree (header_rate (hd readers)) readers \<longrightarrow>
              readers' = map skip_header readers)"
proof (cases readers)
  case Nil
  with n show ?thesis
    by (subst restore_headers.simps) (simp add: headers_agree_def)
next
  case (Cons br brs)
  let ?readers1 = "readers[0 := skip_header br]"
  let ?mi6a = "mi6\<lparr>sparseSampleRate := header_rate br\<rparr>"
  have step: "restore_headers mem mi6 readers numReaders 0 =
    (if header_magic br \<noteq> MAGIC_MI_START
     then Inr (Some UDS_CORRUPT_COMPONENT, mi6, ?readers1)
     else restore_headers mem ?mi6a ?readers1 numReaders (Suc 0))"
    using restore_headers_step [of 0 numReaders readers mem mi6] mem n bytes Cons
    by simp
  show ?thesis
  proof (cases "header_magic br = MAGIC_MI_START")
    case False
    then have "restore_headers mem mi6 readers numReaders 0 =
                 Inr (Some UDS_CORRUPT_COMPONENT, mi6, ?readers1)"
      by (simp only: step) simp
    then show ?thesis
      using False Cons by (simp add: headers_agree_def)
  next
    case True
    then have next_step: "restore_headers mem mi6 readers numReaders 0 =
                 restore_headers mem ?mi6a ?readers1 numReaders (Suc 0)"
      by (simp only: step) simp
    have "\<exists>readers'. restore_headers mem ?mi6a ?readers1 numReaders (Suc 0) =
           Inr (if headers_agree (sparseSampleRate ?mi6a) (drop (Suc 0) ?readers1)
                then None else Some UDS_CORRUPT_COMPONENT, ?mi6a, readers')
         \<and> (headers_agree (sparseSampleRate ?mi6a) (drop (Suc 0) ?readers1) \<longrightarrow>
              readers' = take (Suc 0) ?readers1 @ map skip_header (drop (Suc 0) ?readers1))"
      using mem n bytes Cons by (intro restore_headers_tail) simp_all
    then obtain readers' where
      tail: "restore_headers mem ?mi6a ?readers1 numReaders (Suc 0) =
           Inr (if headers_agree (sparseSampleRate ?mi6a) (drop (Suc 0) ?readers1)
                then None else Some UDS_CORRUPT_COMPONENT, ?mi6a, readers')"
      and all: "headers_agree (sparseSampleRate ?mi6a) (drop (Suc 0) ?readers1) \<longrightarrow>
              readers' = take (Suc 0) ?readers1 @ map skip_header (drop (Suc 0) ?readers1)"
      by blast
    have "restore_headers mem mi6 readers numReaders 0 =
           Inr (if headers_agree (sparseSampleRate ?mi6a) (drop (Suc 0) ?readers1)
                then None else Some UDS_CORRUPT_COMPONENT, ?mi6a, readers')"
      by (simp only: next_step tail)
    with all True Cons show ?thesis
      by (intro exI [of _ readers']) (simp add: headers_agree_def)
  qed
qed

text \<open>
  C2. Take one reader per zone, each holding at least the twelve bytes of a header, and a
  header buffer that can be allocated. The loop reads and decodes the headers in order.
  If some header has another magic, or a rate other than the rate of the first header,
  the restore fails with \<open>UDS_CORRUPT_COMPONENT\<close> and no call into a sub-index has been
  made: the history and both sub-indices are as before; the rate of the first header has
  been adopted if its magic was right. If every header has the magic and the rate of the
  first, the composite takes that rate, the restore of the non-hook (dense) index is
  started on the readers with their headers consumed, and, if it succeeds, the restore of
  the hook (sparse) index is started after it, on the readers as the first left them.
\<close>

theorem startRestoringMasterIndex_006_validates_headers:
  assumes mem: "sizeof_mi006_data \<le> mem" and n: "numReaders = int (length readers)"
    and bytes: "\<forall>br \<in> set readers. sizeof_mi006_data \<le> length (br_remaining br)"
    and dense: "startRestoringMasterIndex (miNonHook mi6) (map skip_header readers) numReaders
                  = (denseResult, readers2, nonHook')"
    and sparse: "startRestoringMasterIndex (miHook mi6) readers2 numReaders
                  = (sparseResult, readers3, hook')"
  shows "(\<not> headers_agree (header_rate (hd readers)) readers \<longrightarrow>
           (\<exists>mi6' readers'.
              startRestoringMasterIndex_006 mem (Some mi6) readers numReaders
                = Inr (UDS_CORRUPT_COMPONENT, Some mi6', readers')
              \<and> history mi6' = history mi6
              \<and> miNonHook mi6' = miNonHook mi6 \<and> miHook mi6' = miHook mi6
              \<and> (header_magic (hd readers) = MAGIC_MI_START \<longrightarrow>
                   sparseSampleRate mi6' = header_rate (hd readers))))
       \<and> (headers_agree (header_rate (hd readers)) readers \<longrightarrow>
           startRestoringMasterIndex_006 mem (Some mi6) readers numReaders
             = (if denseResult \<noteq> UDS_SUCCESS
                then Inr (denseResult,
                          Some (mi6\<lparr>sparseSampleRate :=
                                      if readers = [] then sparseSampleRate mi6
                                      else header_rate (hd readers),
                                    miNonHook := nonHook',
                                    history := history mi6
                                      @ [Call NonHook StartRestoringMasterIndex]\<rparr>),
                          readers2)
                else Inr (sparseResult,
                          Some (mi6\<lparr>sparseSampleRate :=
                                      if readers = [] then sparseSampleRate mi6
                                      else header_rate (hd readers),
                                    miNonHook := nonHook', miHook := hook',
                                    history := history mi6
                                      @ [Call NonHook StartRestoringMasterIndex,
                                         Call Hook StartRestoringMasterIndex]\<rparr>),
                          readers3)))"
proof -
  obtain readers' where loop: "restore_headers mem mi6 readers numReaders 0 =
           Inr (if headers_agree (header_rate (hd readers)) readers
                then None else Some UDS_CORRUPT_COMPONENT,
                if readers \<noteq> [] \<and> header_magic (hd readers) = MAGIC_MI_START
                then mi6\<lparr>sparseSampleRate := header_rate (hd readers)\<rparr> else mi6,
                readers')"
    and all: "headers_agree (header_rate (hd readers)) readers \<longrightarrow>
              readers' = map skip_header readers"
    using restore_headers_all [of mem numReaders readers mi6] mem n bytes
    by (auto simp add: sizeof_mi006_data_def)
  show ?thesis
  proof (cases "headers_agree (header_rate (hd readers)) readers")
    case False
    then have "readers \<noteq> []"
      by (auto simp add: headers_agree_def)
    with False show ?thesis
      by (simp add: startRestoringMasterIndex_006_def ASSERT_WITH_ERROR_CODE_def loop bindF_def)
  next
    case True
    then have "readers \<noteq> [] \<longrightarrow> header_magic (hd readers) = MAGIC_MI_START"
      by (cases readers) (simp_all add: headers_agree_def)
    with True all dense sparse show ?thesis
      by (auto simp add: startRestoringMasterIndex_006_def ASSERT_WITH_ERROR_CODE_def loop
            bindF_def log_event_def Let_def)
  qed
qed

lemma example_reader_header:
  "header_magic (example_reader 2) = MAGIC_MI_START"
  "header_magic (example_reader 3) = MAGIC_MI_START"
  "header_magic (example_reader 0) = MAGIC_MI_START"
  "header_rate (example_reader 2) = 2"
  "header_rate (example_reader 3) = 3"
  "header_rate (example_reader 0) = 0"
  "skip_header (example_reader rate) = \<lparr>br_remaining = [0xFF]\<rparr>"
  "length (br_remaining (example_reader rate)) = 13"
  by (simp_all add: header_magic_def header_rate_def skip_header_def example_reader_def
        MAGIC_MI_START_def uint32_from_le_def)

theorem startRestoringMasterIndex_006_validates_headers_witness:
  "(\<exists>mi6' readers'.
      startRestoringMasterIndex_006 12 (Some example_master_index6)
          [example_reader 2, example_reader 3] 2
        = Inr (UDS_CORRUPT_COMPONENT, Some mi6', readers')
      \<and> history mi6' = [] \<and> sparseSampleRate mi6' = 2
      \<and> miNonHook mi6' = miNonHook example_master_index6
      \<and> miHook mi6' = miHook example_master_index6)
   \<and> startRestoringMasterIndex_006 12 (Some example_master_index6)
          [example_reader 3, example_reader 3] 2
        = Inr (UDS_SUCCESS,
               Some (example_master_index6
                       \<lparr>sparseSampleRate := 3,
                        history := [Call NonHook StartRestoringMasterIndex,
                                    Call Hook StartRestoringMasterIndex]\<rparr>),
               [\<lparr>br_remaining = [0xFF]\<rparr>, \<lparr>br_remaining = [0xFF]\<rparr>])"
proof -
  let ?done = "[\<lparr>br_remaining = [0xFF]\<rparr>, \<lparr>br_remaining = [0xFF]\<rparr>]"
  have dense: "startRestoringMasterIndex (miNonHook example_master_index6)
                 (map skip_header [example_reader a, example_reader b]) 2
               = (UDS_SUCCESS, ?done, example_sub_index 0x64 (UDS_OTHER 5))" for a b
    by (simp add: example_defs dispatch_defs example_reader_header)
  have sparse: "startRestoringMasterIndex (miHook example_master_index6) ?done 2
               = (UDS_SUCCESS, ?done, example_sub_index 0x73 UDS_SUCCESS)"
    by (simp add: example_defs dispatch_defs)
  have mem: "sizeof_mi006_data \<le> 12"
    by (simp add: sizeof_mi006_data_def)
  have n: "2 = int (length [example_reader a, example_reader b])" for a b
    by simp
  have bytes: "\<forall>br \<in> set [example_reader a, example_reader b].
                 sizeof_mi006_data \<le> length (br_remaining br)" for a b
    by (simp add: sizeof_mi006_data_def example_reader_header)
  have fresh: "history example_master_index6 = []"
    by (simp add: example_master_index6_def)
  have same: "example_master_index6
                \<lparr>sparseSampleRate := 3,
                 miNonHook := example_sub_index 0x64 (UDS_OTHER 5),
                 miHook := example_sub_index 0x73 UDS_SUCCESS, history := h\<rparr>
              = example_master_index6\<lparr>sparseSampleRate := 3, history := h\<rparr>" for h
    by (simp add: example_master_index6_def)
  have differ: "\<exists>mi6' readers'.
      startRestoringMasterIndex_006 12 (Some example_master_index6)
          [example_reader 2, example_reader 3] 2
        = Inr (UDS_CORRUPT_COMPONENT, Some mi6', readers')
      \<and> history mi6' = [] \<and> sparseSampleRate mi6' = 2
      \<and> miNonHook mi6' = miNonHook example_master_index6
      \<and> miHook mi6' = miHook example_master_index6"
    using startRestoringMasterIndex_006_validates_headers
            [OF mem n [of 2 3] bytes [of 2 3] dense [of 2 3] sparse]
    by (simp add: headers_agree_def example_reader_header fresh) blast
  have agree: "startRestoringMasterIndex_006 12 (Some example_master_index6)
          [example_reader 3, example_reader 3] 2
        = Inr (UDS_SUCCESS,
               Some (example_master_index6
                       \<lparr>sparseSampleRate := 3,
                        history := [Call NonHook StartRestoringMasterIndex,
                                    Call Hook StartRestoringMasterIndex]\<rparr>),
               ?done)"
    using startRestoringMasterIndex_006_validates_headers
            [OF mem n [of 3 3] bytes [of 3 3] dense [of 3 3] sparse]
    by (simp add: headers_agree_def example_reader_header fresh same)
  from differ agree show ?thesis
    by (rule conjI)
qed



end
